theory Spec2Isabelle
  imports Main "HOL-Library.AList" "HOL-Library.Sublist"
begin

section \<open>Python values and dictionaries\<close>

text \<open>
  \<^verbatim>\<open>models.py\<close>: \<^verbatim>\<open>class JobStatus(str, Enum)\<close> with the four members
  PENDING, PROCESSING, COMPLETED, FAILED.
\<close>

datatype JobStatus = PENDING | PROCESSING | COMPLETED | FAILED

text \<open>
  The job registry \<^verbatim>\<open>genome_jobs: Dict[str, dict]\<close> holds plain Python dictionaries.
  A dictionary is an association list with distinct keys, in insertion order (the order
  \<^verbatim>\<open>.items()\<close> iterates in). The values the program stores are \<^verbatim>\<open>None\<close>,
  booleans, strings (among them the timestamps \<^verbatim>\<open>datetime.now().isoformat()\<close>),
  \<^verbatim>\<open>JobStatus\<close> members and nested dictionaries.
\<close>

datatype pyval =
    VNone
  | VBool bool
  | VStr string
  | VStatus JobStatus
  | VDict "(string \<times> pyval) list"

type_synonym pydict = "(string \<times> pyval) list"

text \<open>\<^verbatim>\<open>d.get(k)\<close> and \<^verbatim>\<open>k in d\<close>.\<close>

definition dict_get :: "pydict \<Rightarrow> string \<Rightarrow> pyval option" where
  "dict_get d k = map_of d k"

text \<open>\<^verbatim>\<open>d.get(k, default)\<close>.\<close>

definition dict_get_default :: "pydict \<Rightarrow> string \<Rightarrow> pyval \<Rightarrow> pyval" where
  "dict_get_default d k dflt = (case map_of d k of None \<Rightarrow> dflt | Some v \<Rightarrow> v)"

text \<open>
  \<^verbatim>\<open>d[k] = v\<close>: an existing key keeps its position and takes the new value, a new key
  is appended.
\<close>

definition dict_set :: "(string \<times> 'v) list \<Rightarrow> string \<Rightarrow> 'v \<Rightarrow> (string \<times> 'v) list" where
  "dict_set d k v = AList.update k v d"

section \<open>The job orchestrator (\<^verbatim>\<open>market_genome_main.py\<close>)\<close>

subsection \<open>External collaborators\<close>

text \<open>
  \<^verbatim>\<open>MarketGenomeEngine\<close> and the SMTP transaction of \<^verbatim>\<open>EmailService.send_email\<close>
  are the run's collaborators. Each engine method either returns its artifact or raises;
  an exception is carried as its text \<^verbatim>\<open>str(e)\<close>. The constructor
  \<^verbatim>\<open>MarketGenomeEngine()\<close> raises \<^verbatim>\<open>ValueError\<close> when no API key is configured.
  The two \<^verbatim>\<open>import\<close> statements at the head of the \<^verbatim>\<open>try\<close> block are taken
  to succeed.
\<close>

record collaborators =
  MarketGenomeEngine_init :: "string option"
  collect_brand_data :: "string \<Rightarrow> string \<Rightarrow> string + pydict"
  analyze_brand_dna :: "pydict \<Rightarrow> string + pydict"
  analyze_competitors :: "pydict \<Rightarrow> pydict \<Rightarrow> string + pydict"
  create_growth_roadmap :: "pydict \<Rightarrow> pydict \<Rightarrow> string + pydict"
  create_content_strategy :: "pydict \<Rightarrow> string + pydict"
  generate_genome_report ::
    "string \<Rightarrow> pyval \<Rightarrow> pydict \<Rightarrow> pydict \<Rightarrow> pydict \<Rightarrow> pydict \<Rightarrow> string + string"
  smtp_transaction :: "string \<Rightarrow> string list \<Rightarrow> string option"

text \<open>
  \<^verbatim>\<open>EmailService.send_email\<close> (\<^verbatim>\<open>email_service.py\<close>): the whole body is inside
  \<^verbatim>\<open>try\<close>; any exception of building or transmitting the message gives \<^verbatim>\<open>False\<close>,
  a normal end gives \<^verbatim>\<open>True\<close>. The function never raises.
\<close>

definition send_email :: "collaborators \<Rightarrow> string \<Rightarrow> string list \<Rightarrow> bool" where
  "send_email env to_email attachments =
     (case smtp_transaction env to_email attachments of
        None \<Rightarrow> True
      | Some e \<Rightarrow> False)"

text \<open>
  \<^verbatim>\<open>send_genome_report_email\<close> formats subject and body and ends in
  \<^verbatim>\<open>return self.send_email(to_email, subject, body_html, [report_path])\<close>;
  \<^verbatim>\<open>send_error_email\<close> ends in \<^verbatim>\<open>return self.send_email(to_email, subject, body_html)\<close>.
\<close>

definition send_genome_report_email ::
  "collaborators \<Rightarrow> string \<Rightarrow> string \<Rightarrow> string \<Rightarrow> bool" where
  "send_genome_report_email env to_email brand_input report_path =
     send_email env to_email [report_path]"

definition send_error_email ::
  "collaborators \<Rightarrow> string \<Rightarrow> string \<Rightarrow> string \<Rightarrow> bool" where
  "send_error_email env to_email product_name error_message =
     send_email env to_email []"

subsection \<open>The state of one run\<close>

text \<open>
  A run of \<^verbatim>\<open>analyze_brand_genome\<close> writes only to \<^verbatim>\<open>genome_jobs[job_id]\<close>.
  Its state is that record, together with what an observer of the run can see: the
  record after each assignment (what a concurrent status poll may read), and the fallible
  statements executed so far with how each ended.
\<close>

datatype step =
    Engine_construct
  | Step1_collect
  | Step2_brand_dna
  | Step3_competitors
  | Step4_roadmap
  | Step5_content
  | Step6_report
  | Step7_email string string string
  | Error_email string string string

datatype outcome = Returned | Delivered bool | Raised string

record run_state =
  job :: pydict
  snapshots :: "pydict list"
  steps :: "(step \<times> outcome) list"

text \<open>\<^verbatim>\<open>genome_jobs[job_id][k] = v\<close>.\<close>

definition assign :: "string \<Rightarrow> pyval \<Rightarrow> run_state \<Rightarrow> run_state" where
  "assign k v s =
     s\<lparr>job := dict_set (job s) k v, snapshots := snapshots s @ [dict_set (job s) k v]\<rparr>"

definition executed :: "step \<Rightarrow> outcome \<Rightarrow> run_state \<Rightarrow> run_state" where
  "executed c r s = s\<lparr>steps := steps s @ [(c, r)]\<rparr>"

subsection \<open>\<^verbatim>\<open>analyze_brand_genome\<close>\<close>

text \<open>
  The body of the \<^verbatim>\<open>try\<close> block. The result pairs the exception that left the block
  (if any) with the state reached. Step 6 reads \<^verbatim>\<open>brand_data['brand_name']\<close>, which
  raises \<^verbatim>\<open>KeyError\<close> on a missing key.
\<close>

definition try_block ::
  "collaborators \<Rightarrow> string \<Rightarrow> string \<Rightarrow> string \<Rightarrow> string \<Rightarrow> string \<Rightarrow> run_state
     \<Rightarrow> string option \<times> run_state" where
  "try_block env now job_id brand_input input_type email s0 =
    (let s = assign ''status'' (VStatus PROCESSING) s0;
         s = assign ''message'' (VStr ''Analyzing brand data...'') s
     in case MarketGenomeEngine_init env of
          Some e \<Rightarrow> (Some e, executed Engine_construct (Raised e) s)
        | None \<Rightarrow>
     let s = executed Engine_construct Returned s;
         s = assign ''message'' (VStr ''Collecting brand data from multiple sources...'') s
     in case collect_brand_data env brand_input input_type of
          Inl e \<Rightarrow> (Some e, executed Step1_collect (Raised e) s)
        | Inr brand_data \<Rightarrow>
     let s = executed Step1_collect Returned s;
         s = assign ''message'' (VStr ''Analyzing brand personality and positioning...'') s
     in case analyze_brand_dna env brand_data of
          Inl e \<Rightarrow> (Some e, executed Step2_brand_dna (Raised e) s)
        | Inr brand_dna \<Rightarrow>
     let s = executed Step2_brand_dna Returned s;
         s = assign ''message'' (VStr ''Analyzing competitor landscape...'') s
     in case analyze_competitors env brand_data brand_dna of
          Inl e \<Rightarrow> (Some e, executed Step3_competitors (Raised e) s)
        | Inr competitor_intel \<Rightarrow>
     let s = executed Step3_competitors Returned s;
         s = assign ''message'' (VStr ''Generating growth strategy...'') s
     in case create_growth_roadmap env brand_dna competitor_intel of
          Inl e \<Rightarrow> (Some e, executed Step4_roadmap (Raised e) s)
        | Inr growth_roadmap \<Rightarrow>
     let s = executed Step4_roadmap Returned s;
         s = assign ''message'' (VStr ''Creating content strategy...'') s
     in case create_content_strategy env brand_dna of
          Inl e \<Rightarrow> (Some e, executed Step5_content (Raised e) s)
        | Inr content_strategy \<Rightarrow>
     let s = executed Step5_content Returned s;
         s = assign ''message'' (VStr ''Creating Marketing Genome Report...'') s
     in case (case dict_get brand_data ''brand_name'' of
                None \<Rightarrow> Inl (CHR 0x27 # ''brand_name'' @ [CHR 0x27])
              | Some brand_name \<Rightarrow>
                  generate_genome_report env job_id brand_name brand_dna competitor_intel
                    growth_roadmap content_strategy) of
          Inl e \<Rightarrow> (Some e, executed Step6_report (Raised e) s)
        | Inr pdf_path \<Rightarrow>
     let s = executed Step6_report Returned s;
         s = assign ''pdf_path'' (VStr pdf_path) s;
         s = assign ''pdf_url'' (VStr (''/api/download/report/'' @ job_id)) s;
         s = assign ''message'' (VStr ''Sending Marketing Genome Report...'') s;
         email_sent = send_genome_report_email env email brand_input pdf_path;
         s = executed (Step7_email email brand_input pdf_path) (Delivered email_sent) s;
         s = assign ''email_sent'' (VBool email_sent) s;
         s = assign ''status'' (VStatus COMPLETED) s;
         s = assign ''message'' (VStr ''Marketing Genome Report generated successfully!'') s;
         s = assign ''completed_at'' (VStr now) s
     in (None, s))"

text \<open>
  The \<^verbatim>\<open>except Exception as e\<close> handler. The notification is wrapped in its own
  \<^verbatim>\<open>try: ... except: pass\<close>; its result is not stored anywhere.
\<close>

definition except_block ::
  "collaborators \<Rightarrow> string \<Rightarrow> string \<Rightarrow> string \<Rightarrow> run_state \<Rightarrow> run_state" where
  "except_block env email brand_input e s0 =
    (let error_msg = ''Error generating genome: '' @ e;
         s = assign ''status'' (VStatus FAILED) s0;
         s = assign ''message'' (VStr error_msg) s;
         sent = send_error_email env email brand_input e
     in executed (Error_email email brand_input e) (Delivered sent) s)"

text \<open>One run on the record \<^verbatim>\<open>genome_jobs[job_id]\<close>.\<close>

definition run_job ::
  "collaborators \<Rightarrow> string \<Rightarrow> string \<Rightarrow> string \<Rightarrow> string \<Rightarrow> string \<Rightarrow> pydict \<Rightarrow> run_state" where
  "run_job env now job_id brand_input input_type email j =
     (case try_block env now job_id brand_input input_type email
             \<lparr>job = j, snapshots = [], steps = []\<rparr> of
        (None, s) \<Rightarrow> s
      | (Some e, s) \<Rightarrow> except_block env email brand_input e s)"

datatype http_error = HTTPException nat string | Unhandled string

type_synonym registry = "(string \<times> pydict) list"

text \<open>
  The run on the registry. With an unknown \<^verbatim>\<open>job_id\<close> the first statement raises
  \<^verbatim>\<open>KeyError\<close>, and so does the first statement of the handler: the exception leaves
  the function.
\<close>

definition analyze_brand_genome ::
  "collaborators \<Rightarrow> string \<Rightarrow> registry \<Rightarrow> string \<Rightarrow> string \<Rightarrow> string \<Rightarrow> string
     \<Rightarrow> http_error + registry" where
  "analyze_brand_genome env now genome_jobs job_id brand_input input_type email =
     (case map_of genome_jobs job_id of
        None \<Rightarrow> Inl (Unhandled ''KeyError'')
      | Some j \<Rightarrow>
          Inr (dict_set genome_jobs job_id
                 (job (run_job env now job_id brand_input input_type email j))))"

subsection \<open>\<^verbatim>\<open>analyze_brand\<close> and \<^verbatim>\<open>get_genome_status\<close>\<close>

text \<open>The record \<^verbatim>\<open>analyze_brand\<close> stores for a new job.\<close>

definition new_job :: "string \<Rightarrow> string \<Rightarrow> string \<Rightarrow> string \<Rightarrow> string \<Rightarrow> pydict" where
  "new_job job_id now brand_input input_type email =
     [(''job_id'', VStr job_id),
      (''status'', VStatus PENDING),
      (''message'', VStr ''Analysis starting...''),
      (''brand_input'', VStr brand_input),
      (''input_type'', VStr input_type),
      (''email'', VStr email),
      (''created_at'', VStr now),
      (''pdf_url'', VNone),
      (''email_sent'', VBool False)]"

text \<open>
  \<^verbatim>\<open>POST /api/analyze\<close>. The identifier \<^verbatim>\<open>str(uuid.uuid4())\<close> and the clock
  reading are inputs. The result is the registry with the new record and the response
  body; the background run is scheduled with the same four arguments.
\<close>

definition analyze_brand ::
  "registry \<Rightarrow> string \<Rightarrow> string \<Rightarrow> string \<Rightarrow> string \<Rightarrow> string
     \<Rightarrow> http_error + registry \<times> pydict" where
  "analyze_brand genome_jobs job_id now brand_input input_type email =
     (if length brand_input < 3 then
        Inl (HTTPException 400
          ''Brand input too short. Please provide a brand name, website, or social handle.'')
      else
        Inr (dict_set genome_jobs job_id (new_job job_id now brand_input input_type email),
             [(''job_id'', VStr job_id),
              (''status'', VStr ''pending''),
              (''message'', VStr
                 ''Marketing Genome analysis started. Report will be emailed when complete.''),
              (''estimated_time'', VStr ''3-5 minutes'')]))"


text \<open>The status values an observer of a run reads, one per snapshot.\<close>

definition status_trace :: "pydict list \<Rightarrow> pyval option list" where
  "status_trace js = map (\<lambda>j. dict_get j ''status'') js"

section \<open>The brand assistant (\<^verbatim>\<open>brand_ai_assistant.py\<close>)\<close>

subsection \<open>Strings\<close>

text \<open>
  A character is a code point from 0 to 255 (Latin-1). \<^verbatim>\<open>str.lower()\<close> maps the
  letters A to Z and the upper-case letters 0xC0 to 0xDE (without the multiplication sign
  0xD7) to the code point 32 above; every other character of the range is kept.
  \<^verbatim>\<open>p in s\<close> on strings is the test for a contiguous occurrence.
\<close>

definition lower_char :: "char \<Rightarrow> char" where
  "lower_char c =
     (case map_of
        (zip (''ABCDEFGHIJKLMNOPQRSTUVWXYZ'' @
              [CHR 0xC0, CHR 0xC1, CHR 0xC2, CHR 0xC3, CHR 0xC4, CHR 0xC5, CHR 0xC6, CHR 0xC7,
               CHR 0xC8, CHR 0xC9, CHR 0xCA, CHR 0xCB, CHR 0xCC, CHR 0xCD, CHR 0xCE, CHR 0xCF,
               CHR 0xD0, CHR 0xD1, CHR 0xD2, CHR 0xD3, CHR 0xD4, CHR 0xD5, CHR 0xD6,
               CHR 0xD8, CHR 0xD9, CHR 0xDA, CHR 0xDB, CHR 0xDC, CHR 0xDD, CHR 0xDE])
             (''abcdefghijklmnopqrstuvwxyz'' @
              [CHR 0xE0, CHR 0xE1, CHR 0xE2, CHR 0xE3, CHR 0xE4, CHR 0xE5, CHR 0xE6, CHR 0xE7,
               CHR 0xE8, CHR 0xE9, CHR 0xEA, CHR 0xEB, CHR 0xEC, CHR 0xED, CHR 0xEE, CHR 0xEF,
               CHR 0xF0, CHR 0xF1, CHR 0xF2, CHR 0xF3, CHR 0xF4, CHR 0xF5, CHR 0xF6,
               CHR 0xF8, CHR 0xF9, CHR 0xFA, CHR 0xFB, CHR 0xFC, CHR 0xFD, CHR 0xFE])) c of
        None \<Rightarrow> c
      | Some d \<Rightarrow> d)"

definition lower :: "string \<Rightarrow> string" where
  "lower s = map lower_char s"

fun contains :: "string \<Rightarrow> string \<Rightarrow> bool" where
  "contains p [] = (p = [])"
| "contains p (c # cs) = (prefix p (c # cs) \<or> contains p cs)"

text \<open>\<^verbatim>\<open>any(phrase in message_lower for phrase in phrases)\<close>.\<close>

definition any_in :: "string list \<Rightarrow> string \<Rightarrow> bool" where
  "any_in phrases message_lower = list_ex (\<lambda>phrase. contains phrase message_lower) phrases"

subsection \<open>\<^verbatim>\<open>_detect_action_type\<close>\<close>

definition image_phrases :: "string list" where
  "image_phrases =
     [''create a image'', ''create an image'', ''generate a image'', ''generate an image'',
      ''generate image'', ''make image'', ''make a image'', ''make an image'',
      ''create a photo'', ''create photo'', ''generate a photo'', ''generate photo'',
      ''make photo'',
      ''design a post'', ''design post'', ''create visual'', ''generate visual'',
      ''make a post photo'', ''create post image'', ''image of'', ''photo of'',
      ''image about'', ''photo about'', ''picture of'', ''picture about'',
      ''graphic about'', ''graphic of'', ''design about'']"

definition report_phrases :: "string list" where
  "report_phrases = [''generate report'', ''send report'', ''create report'', ''email report'']"

definition content_phrases :: "string list" where
  "content_phrases = [''generate post'', ''create caption'', ''write post'', ''generate content'']"

definition competitor_phrases :: "string list" where
  "competitor_phrases = [''competitor'', ''competition'', ''rival'']"

definition predictive_phrases :: "string list" where
  "predictive_phrases = [''predict'', ''forecast'', ''what if'', ''scenario'']"

definition audience_phrases :: "string list" where
  "audience_phrases = [''persona'', ''audience segment'', ''who is'']"

definition campaign_phrases :: "string list" where
  "campaign_phrases = [''campaign'', ''strategy'', ''plan'']"

definition detect_action_type :: "string \<Rightarrow> string" where
  "detect_action_type message =
     (let message_lower = lower message
      in if any_in image_phrases message_lower then ''generate_image''
         else if any_in report_phrases message_lower then ''generate_report''
         else if any_in content_phrases message_lower then ''generate_content''
         else if any_in competitor_phrases message_lower then ''competitor_analysis''
         else if any_in predictive_phrases message_lower then ''predictive_analysis''
         else if any_in audience_phrases message_lower then ''audience_insights''
         else if any_in campaign_phrases message_lower then ''campaign_creation''
         else ''general_chat'')"

text \<open>
  The classifier as an ordered rule table (category, phrases), read from first to last;
  the first category with a phrase occurring in the text is the answer, and
  \<^verbatim>\<open>general_chat\<close> is the default. This is the spec's description of the classifier,
  to be compared with \<^const>\<open>detect_action_type\<close>.
\<close>

definition rule_table :: "(string \<times> string list) list" where
  "rule_table =
     [(''generate_image'', image_phrases),
      (''generate_report'', report_phrases),
      (''generate_content'', content_phrases),
      (''competitor_analysis'', competitor_phrases),
      (''predictive_analysis'', predictive_phrases),
      (''audience_insights'', audience_phrases),
      (''campaign_creation'', campaign_phrases)]"

fun first_match :: "(string \<times> string list) list \<Rightarrow> string \<Rightarrow> string" where
  "first_match [] text = ''general_chat''"
| "first_match ((category, phrases) # rules) text =
     (if any_in phrases text then category else first_match rules text)"

subsection \<open>The assistant object and its collaborators\<close>

text \<open>
  The OpenAI client: its constructor (raises without an API key), the image endpoint and
  the chat-completion endpoint. \<^verbatim>\<open>images_generate\<close> stands for the whole \<^verbatim>\<open>try\<close>
  body of \<^verbatim>\<open>generate_image\<close>, which builds the enhanced prompt from the brand context
  and the user's prompt and returns it with the image URL. \<^verbatim>\<open>chat_completions_create\<close>
  receives what the request is built from: the brand handle and context (the system
  prompt) and the conversation history. It raises, or returns
  \<^verbatim>\<open>response.choices[0].message.content\<close>, which is a string or \<^verbatim>\<open>None\<close>.
\<close>

record backend =
  OpenAI_init :: "string option"
  images_generate :: "pydict \<Rightarrow> string \<Rightarrow> string + string \<times> string"
  chat_completions_create ::
    "string \<Rightarrow> pydict \<Rightarrow> pydict list \<Rightarrow> string + string option"

record PixaroBrandAssistant =
  brand_handle :: string
  brand_context :: pydict
  conversation_history :: "pydict list"
  session_id :: string

text \<open>
  \<^verbatim>\<open>__init__\<close>: \<^verbatim>\<open>self.brand_context = brand_context or {}\<close>; the constructor of the
  client may raise.
\<close>

definition PixaroBrandAssistant_init ::
  "backend \<Rightarrow> string \<Rightarrow> string \<Rightarrow> pydict option \<Rightarrow> string + PixaroBrandAssistant" where
  "PixaroBrandAssistant_init be now handle ctx =
     (case OpenAI_init be of
        Some e \<Rightarrow> Inl e
      | None \<Rightarrow>
          Inr \<lparr>brand_handle = handle,
               brand_context = (case ctx of None \<Rightarrow> [] | Some d \<Rightarrow> d),
               conversation_history = [],
               session_id = now\<rparr>)"

text \<open>
  \<^verbatim>\<open>_build_system_prompt\<close> is called outside the \<^verbatim>\<open>try\<close> of \<^verbatim>\<open>chat\<close>. Its text is
  part of the completion request; what matters to the control flow is whether building it
  raises. With a non-empty context each of the three sections is read with \<^verbatim>\<open>.get\<close>
  (an \<^verbatim>\<open>AttributeError\<close> on a value that is no dictionary), and two entries of each
  section go through \<^verbatim>\<open>', '.join(...)\<close> (a \<^verbatim>\<open>TypeError\<close> on \<^verbatim>\<open>None\<close> or a
  boolean; a missing entry takes its default list).
\<close>

fun joinable :: "pyval \<Rightarrow> bool" where
  "joinable VNone = False"
| "joinable (VBool b) = False"
| "joinable (VStr s) = True"
| "joinable (VStatus st) = True"
| "joinable (VDict d) = True"

definition section_error :: "pyval \<Rightarrow> string list \<Rightarrow> string option" where
  "section_error v joined =
     (case v of
        VDict d \<Rightarrow>
          if list_all (\<lambda>k. joinable (dict_get_default d k (VStr []))) joined then None
          else Some ''TypeError''
      | _ \<Rightarrow> Some ''AttributeError'')"

definition build_system_prompt_error :: "pydict \<Rightarrow> string option" where
  "build_system_prompt_error ctx =
     (if ctx = [] then None
      else case section_error (dict_get_default ctx ''brand_dna'' (VDict []))
                  [''values'', ''personality''] of
             Some e \<Rightarrow> Some e
           | None \<Rightarrow>
          (case section_error (dict_get_default ctx ''audience'' (VDict []))
                  [''pain_points'', ''content_prefs''] of
             Some e \<Rightarrow> Some e
           | None \<Rightarrow>
               section_error (dict_get_default ctx ''competitors'' (VDict []))
                 [''names'', ''advantages'']))"

text \<open>
  \<^verbatim>\<open>generate_image\<close>: everything is inside \<^verbatim>\<open>try\<close>. The success dictionary
  (\<^verbatim>\<open>success: True\<close>, with \<^verbatim>\<open>image_url\<close>, \<^verbatim>\<open>prompt\<close>, \<^verbatim>\<open>enhanced_prompt\<close>) is
  the right summand; the failure dictionary (\<^verbatim>\<open>success: False\<close>, with \<^verbatim>\<open>error\<close>) is
  the left one.
\<close>

definition generate_image ::
  "backend \<Rightarrow> PixaroBrandAssistant \<Rightarrow> string \<Rightarrow> string + string \<times> string \<times> string" where
  "generate_image be a prompt =
     (case images_generate be (brand_context a) prompt of
        Inl e \<Rightarrow> Inl e
      | Inr (enhanced_prompt, image_url) \<Rightarrow> Inr (image_url, prompt, enhanced_prompt))"

subsection \<open>\<^verbatim>\<open>chat\<close>\<close>

definition needs_report :: "string \<Rightarrow> bool" where
  "needs_report user_message =
     (contains ''report'' (lower user_message) \<and>
      (contains ''generate'' (lower user_message) \<or> contains ''send'' (lower user_message)))"

text \<open>The entry \<^verbatim>\<open>chat\<close> appends for the user's message.\<close>

definition user_entry :: "string \<Rightarrow> string \<Rightarrow> pydict" where
  "user_entry now user_message =
     [(''role'', VStr ''user''),
      (''content'', VStr user_message),
      (''timestamp'', VStr now)]"

text \<open>
  The result is the assistant after the call with either the exception that left
  \<^verbatim>\<open>chat\<close> or the returned dictionary. The user message is appended first. A
  successful image generation appends the assistant message and returns; a failed one
  falls through to the completion call. Only the completion call is inside \<^verbatim>\<open>try\<close>:
  on success the assistant message is appended, on an exception the error reply is
  returned and nothing is appended.
\<close>

definition chat ::
  "backend \<Rightarrow> string \<Rightarrow> PixaroBrandAssistant \<Rightarrow> string
     \<Rightarrow> PixaroBrandAssistant \<times> (string + pydict)" where
  "chat be now a0 user_message =
    (let a = a0\<lparr>conversation_history := conversation_history a0 @
                 [user_entry now user_message]\<rparr>;
         action_type = detect_action_type user_message;
         image_result =
           (if action_type = ''generate_image'' then Some (generate_image be a user_message)
            else None)
     in case image_result of
          Some (Inr (image_url, prompt, enhanced_prompt)) \<Rightarrow>
            (let assistant_response =
                   ''I've generated an image for you! Here's what I created:\<newline>\<newline>'' @ prompt @
                   ''\<newline>\<newline>Would you like me to create another variation or adjust anything?''
             in (a\<lparr>conversation_history := conversation_history a @
                     [[(''role'', VStr ''assistant''),
                       (''content'', VStr assistant_response),
                       (''timestamp'', VStr now),
                       (''image_url'', VStr image_url)]]\<rparr>,
                 Inr [(''response'', VStr assistant_response),
                      (''action_type'', VStr action_type),
                      (''needs_report'', VBool False),
                      (''image_url'', VStr image_url),
                      (''timestamp'', VStr now)]))
        | _ \<Rightarrow>
     (case build_system_prompt_error (brand_context a) of
        Some e \<Rightarrow> (a, Inl e)
      | None \<Rightarrow>
     (case chat_completions_create be (brand_handle a) (brand_context a)
             (conversation_history a) of
        Inr message_content \<Rightarrow>
          (let assistant_response =
                 (case message_content of None \<Rightarrow> VNone | Some s \<Rightarrow> VStr s)
           in (a\<lparr>conversation_history := conversation_history a @
                   [[(''role'', VStr ''assistant''),
                     (''content'', assistant_response),
                     (''timestamp'', VStr now)]]\<rparr>,
               Inr [(''response'', assistant_response),
                    (''action_type'', VStr action_type),
                    (''needs_report'', VBool (needs_report user_message)),
                    (''timestamp'', VStr now)]))
      | Inl e \<Rightarrow>
          (a,
           Inr [(''response'', VStr (''I encountered an error: '' @ e @
                   ''. Let me try to help you anyway. What would you like to know about '' @
                   brand_handle a @ ''?'')),
                (''action_type'', VStr ''error''),
                (''needs_report'', VBool False),
                (''timestamp'', VStr now)]))))"

section \<open>The session manager (\<^verbatim>\<open>market_genome_main.py\<close>)\<close>

text \<open>
  An entry of \<^verbatim>\<open>chat_sessions\<close>: the dictionary with the keys \<^verbatim>\<open>session_id\<close>,
  \<^verbatim>\<open>brand_handle\<close>, \<^verbatim>\<open>assistant\<close>, \<^verbatim>\<open>created_at\<close> and \<^verbatim>\<open>last_activity\<close>.
\<close>

record chat_session =
  cs_session_id :: string
  cs_brand_handle :: string
  cs_assistant :: PixaroBrandAssistant
  cs_created_at :: string
  cs_last_activity :: string

type_synonym sessions = "(string \<times> chat_session) list"

subsection \<open>\<^verbatim>\<open>initialize_chat\<close>\<close>

text \<open>
  \<^verbatim>\<open>JobStatus\<close> is a \<^verbatim>\<open>str\<close> subclass: a member has the string methods of its
  value and compares equal to it.
\<close>

fun status_value :: "JobStatus \<Rightarrow> string" where
  "status_value PENDING = ''pending''"
| "status_value PROCESSING = ''processing''"
| "status_value COMPLETED = ''completed''"
| "status_value FAILED = ''failed''"

text \<open>\<^verbatim>\<open>v.lower()\<close>: an \<^verbatim>\<open>AttributeError\<close> on a value that is no string.\<close>

fun py_lower :: "pyval \<Rightarrow> string option" where
  "py_lower (VStr s) = Some (lower s)"
| "py_lower (VStatus st) = Some (lower (status_value st))"
| "py_lower VNone = None"
| "py_lower (VBool b) = None"
| "py_lower (VDict d) = None"

text \<open>\<^verbatim>\<open>job.get('status') == JobStatus.COMPLETED\<close>.\<close>

definition is_completed :: "pydict \<Rightarrow> bool" where
  "is_completed j =
     (dict_get j ''status'' = Some (VStatus COMPLETED) \<or>
      dict_get j ''status'' = Some (VStr (status_value COMPLETED)))"

text \<open>
  The dictionary built inside the loop from the record the loop stops at.
\<close>

definition load_brand_context :: "pydict \<Rightarrow> pydict" where
  "load_brand_context j =
     [(''brand_dna'', dict_get_default j ''brand_dna'' (VDict [])),
      (''audience'', dict_get_default j ''audience'' (VDict [])),
      (''competitors'', dict_get_default j ''competitors'' (VDict []))]"

text \<open>
  \<^verbatim>\<open>for job_id, job in genome_jobs.items(): if ...: ...; break\<close>. The records are
  visited in insertion order; the loop stops at the first record whose
  \<^verbatim>\<open>brand_input\<close>, lowered, equals the lowered handle and whose status is COMPLETED.
  The result is the record the loop stopped at (none when it ran to the end), or the
  exception of \<^verbatim>\<open>.lower()\<close>.
\<close>

fun find_completed_job :: "registry \<Rightarrow> string \<Rightarrow> string + pydict option" where
  "find_completed_job [] handle = Inr None"
| "find_completed_job ((job_id, j) # rest) handle =
     (case py_lower (dict_get_default j ''brand_input'' (VStr [])) of
        None \<Rightarrow> Inl ''AttributeError''
      | Some b \<Rightarrow>
          if b = lower handle \<and> is_completed j then Inr (Some j)
          else find_completed_job rest handle)"

definition welcome_message :: "string \<Rightarrow> string" where
  "welcome_message handle =
     ''Hi! I'm your personal AI strategist for **'' @ handle @ ''**.\<newline>\<newline>'' @
     ''I can help you with:\<newline>'' @
     ''- Content creation (Instagram posts, captions, campaigns)\<newline>'' @
     ''- Audience insights and personas\<newline>'' @
     ''- Competitor analysis\<newline>'' @
     ''- Growth strategies\<newline>'' @
     ''- Engagement predictions\<newline>'' @
     ''- Weekly content planning\<newline>\<newline>'' @
     ''What would you like to work on today?''"

text \<open>
  \<^verbatim>\<open>POST /api/chat/init\<close>. The whole body is inside \<^verbatim>\<open>try\<close>; any exception becomes
  the response 500. The session identifier and the clock reading are inputs.
\<close>

definition initialize_chat ::
  "backend \<Rightarrow> registry \<Rightarrow> sessions \<Rightarrow> string \<Rightarrow> string \<Rightarrow> string
     \<Rightarrow> http_error + sessions \<times> pydict" where
  "initialize_chat be genome_jobs chat_sessions sid now handle =
     (case find_completed_job genome_jobs handle of
        Inl e \<Rightarrow> Inl (HTTPException 500 (''Failed to initialize chat: '' @ e))
      | Inr found \<Rightarrow>
     (let ctx = map_option load_brand_context found
      in case PixaroBrandAssistant_init be now handle ctx of
           Inl e \<Rightarrow> Inl (HTTPException 500 (''Failed to initialize chat: '' @ e))
         | Inr assistant \<Rightarrow>
             Inr (dict_set chat_sessions sid
                    \<lparr>cs_session_id = sid,
                     cs_brand_handle = handle,
                     cs_assistant = assistant,
                     cs_created_at = now,
                     cs_last_activity = now\<rparr>,
                  [(''session_id'', VStr sid),
                   (''brand_handle'', VStr handle),
                   (''welcome_message'', VStr (welcome_message handle)),
                   (''has_context'', VBool (ctx \<noteq> None))])))"

subsection \<open>\<^verbatim>\<open>send_chat_message\<close>\<close>

text \<open>
  The log line after the call of \<^verbatim>\<open>chat\<close> prints \<^verbatim>\<open>response_data['response'][:50]\<close>:
  the slice raises on a reply that is no string.
\<close>

fun slice_error :: "pyval \<Rightarrow> string option" where
  "slice_error (VStr s) = None"
| "slice_error (VStatus st) = None"
| "slice_error VNone = Some ''TypeError''"
| "slice_error (VBool b) = Some ''TypeError''"
| "slice_error (VDict d) = Some ''TypeError''"

text \<open>
  \<^verbatim>\<open>POST /api/chat/message\<close>. An unknown session gives 404. Otherwise
  \<^verbatim>\<open>last_activity\<close> is updated and \<^verbatim>\<open>assistant.chat\<close> is called; both mutate the
  stored session, whatever the call then does. An exception leaving \<^verbatim>\<open>chat\<close>, or
  raised by the log line, becomes the response 500.
\<close>

definition send_chat_message ::
  "backend \<Rightarrow> sessions \<Rightarrow> string \<Rightarrow> string \<Rightarrow> string \<Rightarrow> sessions \<times> (http_error + pydict)" where
  "send_chat_message be chat_sessions now sid message =
     (case map_of chat_sessions sid of
        None \<Rightarrow>
          (chat_sessions,
           Inl (HTTPException 404 ''Session not found. Please initialize chat first.''))
      | Some session \<Rightarrow>
          (case chat be now (cs_assistant session) message of
             (assistant, result) \<Rightarrow>
               (dict_set chat_sessions sid
                  (session\<lparr>cs_last_activity := now, cs_assistant := assistant\<rparr>),
                case result of
                  Inl e \<Rightarrow> Inl (HTTPException 500 (''Chat error: '' @ e))
                | Inr response_data \<Rightarrow>
                    (case dict_get response_data ''response'' of
                       None \<Rightarrow> Inl (HTTPException 500 (''Chat error: '' @ ''KeyError''))
                     | Some response \<Rightarrow>
                    (case slice_error response of
                       Some e \<Rightarrow> Inl (HTTPException 500 (''Chat error: '' @ e))
                     | None \<Rightarrow>
                         Inr [(''session_id'', VStr sid),
                              (''response'', response),
                              (''action_type'',
                                 dict_get_default response_data ''action_type''
                                   (VStr ''general_chat'')),
                              (''needs_report'',
                                 dict_get_default response_data ''needs_report'' (VBool False)),
                              (''image_url'',
                                 dict_get_default response_data ''image_url'' VNone),
                              (''timestamp'',
                                 dict_get_default response_data ''timestamp'' VNone)])))))"

subsection \<open>\<^verbatim>\<open>generate_chat_report\<close> and \<^verbatim>\<open>end_chat_session\<close>\<close>

text \<open>
  \<^verbatim>\<open>POST /api/chat/generate-report\<close> stores a new job for the session's brand handle and
  schedules its run.
\<close>

definition generate_chat_report ::
  "sessions \<Rightarrow> registry \<Rightarrow> string \<Rightarrow> string \<Rightarrow> string \<Rightarrow> string
     \<Rightarrow> http_error + registry \<times> pydict" where
  "generate_chat_report chat_sessions genome_jobs job_id now sid email =
     (case map_of chat_sessions sid of
        None \<Rightarrow> Inl (HTTPException 404 ''Session not found'')
      | Some session \<Rightarrow>
          Inr (dict_set genome_jobs job_id
                 [(''job_id'', VStr job_id),
                  (''status'', VStatus PENDING),
                  (''message'', VStr ''Generating report from chat session...''),
                  (''brand_input'', VStr (cs_brand_handle session)),
                  (''input_type'', VStr ''auto''),
                  (''email'', VStr email),
                  (''created_at'', VStr now),
                  (''pdf_url'', VNone),
                  (''email_sent'', VBool False),
                  (''from_chat'', VBool True),
                  (''chat_session_id'', VStr sid)],
               [(''success'', VBool True),
                (''job_id'', VStr job_id),
                (''message'', VStr (''Report is being generated for '' @
                   cs_brand_handle session @ '' and will be sent to '' @ email)),
                (''estimated_time'', VStr ''3-5 minutes'')]))"

text \<open>
  \<^verbatim>\<open>DELETE /api/chat/session/{session_id}\<close>: the export is best effort, then
  \<^verbatim>\<open>del chat_sessions[session_id]\<close>.
\<close>

definition end_chat_session :: "sessions \<Rightarrow> string \<Rightarrow> http_error + sessions" where
  "end_chat_session chat_sessions sid =
     (case map_of chat_sessions sid of
        None \<Rightarrow> Inl (HTTPException 404 ''Session not found'')
      | Some session \<Rightarrow> Inr (AList.delete sid chat_sessions))"

section \<open>The states the program reaches\<close>

text \<open>
  The two registries start empty and change only through the operations above. A
  background run is started with the arguments of the request that scheduled it.
\<close>

inductive reachable :: "registry \<times> sessions \<Rightarrow> bool" where
  start: "reachable ([], [])"
| submitted:
    "reachable (jobs, ss) \<Longrightarrow>
     analyze_brand jobs job_id now brand_input input_type email = Inr (jobs', resp) \<Longrightarrow>
     reachable (jobs', ss)"
| ran:
    "reachable (jobs, ss) \<Longrightarrow>
     analyze_brand_genome env now jobs job_id brand_input input_type email = Inr jobs' \<Longrightarrow>
     reachable (jobs', ss)"
| chat_started:
    "reachable (jobs, ss) \<Longrightarrow>
     initialize_chat be jobs ss sid now handle = Inr (ss', resp) \<Longrightarrow>
     reachable (jobs, ss')"
| chat_message:
    "reachable (jobs, ss) \<Longrightarrow>
     send_chat_message be ss now sid message = (ss', result) \<Longrightarrow>
     reachable (jobs, ss')"
| chat_report:
    "reachable (jobs, ss) \<Longrightarrow>
     generate_chat_report ss jobs job_id now sid email = Inr (jobs', resp) \<Longrightarrow>
     reachable (jobs', ss)"
| chat_ended:
    "reachable (jobs, ss) \<Longrightarrow>
     end_chat_session ss sid = Inr ss' \<Longrightarrow>
     reachable (jobs, ss')"

section \<open>Notions used in the statements\<close>

text \<open>
  The fallible statements of the \<^verbatim>\<open>try\<close> block in program order: the construction of
  the engine and the stages 1 to 6. Stage 7, the delivery, returns a boolean and cannot
  raise.
\<close>

definition pipeline :: "step list" where
  "pipeline =
     [Engine_construct, Step1_collect, Step2_brand_dna, Step3_competitors, Step4_roadmap,
      Step5_content, Step6_report]"

text \<open>The brand context of three empty mappings.\<close>

definition empty_context :: pydict where
  "empty_context = [(''brand_dna'', VDict []), (''audience'', VDict []), (''competitors'', VDict [])]"

text \<open>
  A call of \<^verbatim>\<open>chat\<close> is successful when it returns a reply other than the error reply
  of the \<^verbatim>\<open>except\<close> branch (\<^verbatim>\<open>action_type: "error"\<close>).
\<close>

definition chat_succeeded :: "backend \<Rightarrow> string \<Rightarrow> PixaroBrandAssistant \<Rightarrow> string \<Rightarrow> bool" where
  "chat_succeeded be now a user_message =
     (case snd (chat be now a user_message) of
        Inl e \<Rightarrow> False
      | Inr r \<Rightarrow> dict_get r ''action_type'' \<noteq> Some (VStr ''error''))"

text \<open>
  A sequence of calls (clock reading, message) on one assistant, in call order, and the
  condition that each call of the sequence is successful.
\<close>

fun chat_all ::
  "backend \<Rightarrow> PixaroBrandAssistant \<Rightarrow> (string \<times> string) list \<Rightarrow> PixaroBrandAssistant" where
  "chat_all be a [] = a"
| "chat_all be a ((now, m) # calls) = chat_all be (fst (chat be now a m)) calls"

fun all_succeeded ::
  "backend \<Rightarrow> PixaroBrandAssistant \<Rightarrow> (string \<times> string) list \<Rightarrow> bool" where
  "all_succeeded be a [] = True"
| "all_succeeded be a ((now, m) # calls) =
     (chat_succeeded be now a m \<and> all_succeeded be (fst (chat be now a m)) calls)"

text \<open>\<^verbatim>\<open>msg["role"]\<close> of every entry of a history.\<close>

definition roles :: "pydict list \<Rightarrow> pyval option list" where
  "roles h = map (\<lambda>msg. dict_get msg ''role'') h"

text \<open>The contents of the user entries of a history, in order.\<close>

definition user_contents :: "pydict list \<Rightarrow> pyval option list" where
  "user_contents h =
     map (\<lambda>msg. dict_get msg ''content'')
       (filter (\<lambda>msg. dict_get msg ''role'' = Some (VStr ''user'')) h)"

text \<open>
  The spec's reading of the context lookup, to be compared with
  \<^const>\<open>find_completed_job\<close>: among the completed records whose brand matches the
  handle without regard to case, the one completed most recently, that is, with the
  greatest \<^verbatim>\<open>completed_at\<close>. ISO timestamps are compared as Python compares strings,
  character by character.
\<close>

fun str_less :: "string \<Rightarrow> string \<Rightarrow> bool" where
  "str_less [] [] = False"
| "str_less [] (d # ds) = True"
| "str_less (c # cs) [] = False"
| "str_less (c # cs) (d # ds) =
     ((of_char c :: nat) < of_char d \<or> (c = d \<and> str_less cs ds))"

definition completed_at :: "pydict \<Rightarrow> string" where
  "completed_at j = (case dict_get j ''completed_at'' of Some (VStr t) \<Rightarrow> t | _ \<Rightarrow> [])"

definition brand_matches :: "string \<Rightarrow> pydict \<Rightarrow> bool" where
  "brand_matches handle j =
     (py_lower (dict_get_default j ''brand_input'' (VStr [])) = Some (lower handle) \<and>
      is_completed j)"

fun latest :: "pydict option \<Rightarrow> pydict list \<Rightarrow> pydict option" where
  "latest best [] = best"
| "latest None (j # js) = latest (Some j) js"
| "latest (Some b) (j # js) =
     latest (if str_less (completed_at b) (completed_at j) then Some j else Some b) js"

definition most_recently_completed :: "registry \<Rightarrow> string \<Rightarrow> pydict option" where
  "most_recently_completed genome_jobs handle =
     latest None (filter (brand_matches handle) (map snd genome_jobs))"

text \<open>
  The invariant of the registries: no record carries one of the keys the context lookup
  reads, every record has a string under \<^verbatim>\<open>brand_input\<close>, and every assistant's context
  is empty or the three empty mappings.
\<close>

definition job_ok :: "pydict \<Rightarrow> bool" where
  "job_ok j =
     (dict_get j ''brand_dna'' = None \<and> dict_get j ''audience'' = None \<and>
      dict_get j ''competitors'' = None \<and>
      (case dict_get j ''brand_input'' of Some (VStr b) \<Rightarrow> True | _ \<Rightarrow> False))"

definition context_ok :: "pydict \<Rightarrow> bool" where
  "context_ok ctx = (ctx = [] \<or> ctx = empty_context)"

definition state_ok :: "registry \<times> sessions \<Rightarrow> bool" where
  "state_ok st =
     (list_all (\<lambda>(job_id, j). job_ok j) (fst st) \<and>
      list_all (\<lambda>(sid, s). context_ok (brand_context (cs_assistant s))) (snd st))"

text \<open>
  The image branch of \<^verbatim>\<open>chat\<close> returns early exactly when the message is classified
  \<^verbatim>\<open>generate_image\<close> and \<^verbatim>\<open>generate_image\<close> reports success; otherwise the
  completion call is made.
\<close>

definition image_generated :: "backend \<Rightarrow> PixaroBrandAssistant \<Rightarrow> string \<Rightarrow> bool" where
  "image_generated be a user_message =
     (detect_action_type user_message = ''generate_image'' \<and>
      (case generate_image be a user_message of Inl e \<Rightarrow> False | Inr r \<Rightarrow> True))"

text \<open>The reply of the image branch of \<^verbatim>\<open>chat\<close>.\<close>

definition image_response :: "string \<Rightarrow> string" where
  "image_response prompt =
     ''I've generated an image for you! Here's what I created:\<newline>\<newline>'' @ prompt @
     ''\<newline>\<newline>Would you like me to create another variation or adjust anything?''"

text \<open>
  The reply of the \<^verbatim>\<open>except\<close> branch of \<^verbatim>\<open>chat\<close>.
\<close>

definition error_response :: "string \<Rightarrow> string \<Rightarrow> string" where
  "error_response e handle =
     ''I encountered an error: '' @ e @
     ''. Let me try to help you anyway. What would you like to know about '' @ handle @ ''?''"

section \<open>Stub collaborators for concrete runs\<close>

definition brand_data_ex :: pydict where
  "brand_data_ex = [(''brand_input'', VStr ''acme.example''), (''brand_name'', VStr ''Acme'')]"

definition brand_dna_ex :: pydict where
  "brand_dna_ex = [(''tone'', VStr ''bold'')]"

definition env_ok :: collaborators where
  "env_ok =
     \<lparr>MarketGenomeEngine_init = None,
      collect_brand_data = (\<lambda>brand_input input_type. Inr brand_data_ex),
      analyze_brand_dna = (\<lambda>brand_data. Inr brand_dna_ex),
      analyze_competitors = (\<lambda>brand_data brand_dna. Inr [(''names'', VStr ''Rival Inc'')]),
      create_growth_roadmap = (\<lambda>brand_dna intel. Inr [(''quarter'', VStr ''Q1'')]),
      create_content_strategy = (\<lambda>brand_dna. Inr [(''pillar'', VStr ''education'')]),
      generate_genome_report = (\<lambda>job_id name dna intel roadmap content. Inr ''outputs/genome.pdf''),
      smtp_transaction = (\<lambda>to_email attachments. None)\<rparr>"

definition env_smtp_down :: collaborators where
  "env_smtp_down = env_ok\<lparr>smtp_transaction := (\<lambda>to_email attachments. Some ''Connection refused'')\<rparr>"

definition env_stage3_fails :: collaborators where
  "env_stage3_fails = env_ok\<lparr>analyze_competitors := (\<lambda>brand_data brand_dna. Inl ''quota exceeded'')\<rparr>"

definition backend_up :: backend where
  "backend_up =
     \<lparr>OpenAI_init = None,
      images_generate = (\<lambda>ctx prompt. Inr (prompt @ ''. High quality.'', ''https://img.example/1.png'')),
      chat_completions_create =
        (\<lambda>handle ctx history. Inr (Some ''Post three times a week.''))\<rparr>"

definition backend_empty :: backend where
  "backend_empty = backend_up\<lparr>chat_completions_create := (\<lambda>handle ctx history. Inr (Some []))\<rparr>"

definition backend_down :: backend where
  "backend_down =
     \<lparr>OpenAI_init = None,
      images_generate = (\<lambda>ctx prompt. Inl ''timeout''),
      chat_completions_create = (\<lambda>handle ctx history. Inl ''timeout'')\<rparr>"

definition fresh_assistant :: PixaroBrandAssistant where
  "fresh_assistant =
     \<lparr>brand_handle = ''acme'', brand_context = [], conversation_history = [],
      session_id = ''20240101_100000''\<rparr>"



text \<open>
  Two jobs for the same brand, written with different case, after their runs with every
  stage returning: \<^verbatim>\<open>job-1\<close> was submitted and completed first, \<^verbatim>\<open>job-2\<close> a day
  later.
\<close>

definition job1_done_ex :: pydict where
  "job1_done_ex =
     [(''job_id'', VStr ''job-1''),
      (''status'', VStatus COMPLETED),
      (''message'', VStr ''Marketing Genome Report generated successfully!''),
      (''brand_input'', VStr ''brandx''),
      (''input_type'', VStr ''auto''),
      (''email'', VStr ''user@x.com''),
      (''created_at'', VStr ''2024-01-01T10:00:00''),
      (''pdf_url'', VStr ''/api/download/report/job-1''),
      (''email_sent'', VBool True),
      (''pdf_path'', VStr ''outputs/genome.pdf''),
      (''completed_at'', VStr ''2024-01-01T10:05:00'')]"

definition job2_done_ex :: pydict where
  "job2_done_ex =
     [(''job_id'', VStr ''job-2''),
      (''status'', VStatus COMPLETED),
      (''message'', VStr ''Marketing Genome Report generated successfully!''),
      (''brand_input'', VStr ''BrandX''),
      (''input_type'', VStr ''auto''),
      (''email'', VStr ''user@x.com''),
      (''created_at'', VStr ''2024-01-02T09:00:00''),
      (''pdf_url'', VStr ''/api/download/report/job-2''),
      (''email_sent'', VBool True),
      (''pdf_path'', VStr ''outputs/genome.pdf''),
      (''completed_at'', VStr ''2024-01-02T09:05:00'')]"

definition two_jobs_ex :: registry where
  "two_jobs_ex = [(''job-1'', job1_done_ex), (''job-2'', job2_done_ex)]"

text \<open>
  The session \<^verbatim>\<open>s-1\<close> that \<^verbatim>\<open>initialize_chat\<close> stores for the handle \<^verbatim>\<open>BrandX\<close>
  over \<^const>\<open>two_jobs_ex\<close>.
\<close>

definition session_ex :: chat_session where
  "session_ex =
     \<lparr>cs_session_id = ''s-1'',
      cs_brand_handle = ''BrandX'',
      cs_assistant =
        \<lparr>brand_handle = ''BrandX'', brand_context = empty_context,
         conversation_history = [], session_id = ''2024-01-03T08:00:00''\<rparr>,
      cs_created_at = ''2024-01-03T08:00:00'',
      cs_last_activity = ''2024-01-03T08:00:00''\<rparr>"

definition sessions_ex :: sessions where
  "sessions_ex = [(''s-1'', session_ex)]"

section \<open>Properties of the job orchestrator\<close>

subsection \<open>Dictionaries and the run state\<close>

lemma dict_get_set: "dict_get (dict_set d k v) k' = (if k' = k then Some v else dict_get d k')"
  by (simp add: dict_get_def dict_set_def update_conv')

lemma map_of_dict_set: "map_of (dict_set d k v) k' = (if k' = k then Some v else map_of d k')"
  by (simp add: dict_set_def update_conv')

lemma assign_sel:
  "job (assign k v s) = dict_set (job s) k v"
  "snapshots (assign k v s) = snapshots s @ [dict_set (job s) k v]"
  "steps (assign k v s) = steps s"
  by (simp_all add: assign_def)

lemma executed_sel:
  "job (executed c r s) = job s"
  "snapshots (executed c r s) = snapshots s"
  "steps (executed c r s) = steps s @ [(c, r)]"
  by (simp_all add: executed_def)

lemmas run_unfold = run_job_def try_block_def except_block_def assign_sel executed_sel Let_def

text \<open>A run writes six keys of the record and no other.\<close>

lemma run_job_frame:
  assumes "k \<notin> {''status'', ''message'', ''pdf_path'', ''pdf_url'', ''email_sent'', ''completed_at''}"
  shows "dict_get (job (run_job env now job_id b t e j)) k = dict_get j k"
  using assms
  by (simp add: run_unfold dict_get_set split: option.splits sum.splits)

lemma run_job_status_trace:
  assumes "dict_get j ''status'' = Some (VStatus PENDING)"
  shows "remdups_adj (status_trace (j # snapshots (run_job env now job_id b t e j)))
    \<in> {[Some (VStatus PENDING), Some (VStatus PROCESSING), Some (VStatus COMPLETED)],
        [Some (VStatus PENDING), Some (VStatus PROCESSING), Some (VStatus FAILED)]}"
  using assms
  by (simp add: run_unfold status_trace_def dict_get_set split: option.splits sum.splits)

lemma run_job_last_snapshot:
  "last (snapshots (run_job env now job_id b t e j)) = job (run_job env now job_id b t e j)"
  by (simp add: run_unfold split: option.splits sum.splits)






subsection \<open>Claim C1: the status life cycle\<close>

text \<open>
  C1. A job stored by \<^verbatim>\<open>analyze_brand\<close> has status PENDING. Its run, whatever the
  collaborators do, ends, and the status values an observer reads from the record, from
  submission through every assignment of the run, are with repetitions collapsed exactly
  PENDING, PROCESSING, COMPLETED or PENDING, PROCESSING, FAILED: PROCESSING is never
  skipped and a terminal status is never left. The last snapshot is the record the run
  stores back.
\<close>

theorem job_status_lifecycle:
  assumes "analyze_brand genome_jobs job_id now0 brand_input input_type email = Inr (jobs', resp)"
  shows "\<exists>j0. map_of jobs' job_id = Some j0 \<and>
           dict_get j0 ''status'' = Some (VStatus PENDING) \<and>
           analyze_brand_genome env now jobs' job_id brand_input input_type email =
             Inr (dict_set jobs' job_id
                    (job (run_job env now job_id brand_input input_type email j0))) \<and>
           remdups_adj
             (status_trace
                (j0 # snapshots (run_job env now job_id brand_input input_type email j0)))
             \<in> {[Some (VStatus PENDING), Some (VStatus PROCESSING), Some (VStatus COMPLETED)],
                 [Some (VStatus PENDING), Some (VStatus PROCESSING), Some (VStatus FAILED)]} \<and>
           last (snapshots (run_job env now job_id brand_input input_type email j0)) =
             job (run_job env now job_id brand_input input_type email j0)"
proof -
  let ?j0 = "new_job job_id now0 brand_input input_type email"
  from assms have jobs': "jobs' = dict_set genome_jobs job_id ?j0"
    by (simp add: analyze_brand_def split: if_splits)
  have look: "map_of jobs' job_id = Some ?j0"
    by (simp add: jobs' map_of_dict_set)
  have pending: "dict_get ?j0 ''status'' = Some (VStatus PENDING)"
    by (simp add: new_job_def dict_get_def)
  have run: "analyze_brand_genome env now jobs' job_id brand_input input_type email =
      Inr (dict_set jobs' job_id (job (run_job env now job_id brand_input input_type email ?j0)))"
    by (simp add: analyze_brand_genome_def look)
  show ?thesis
    using look pending run run_job_status_trace [OF pending] run_job_last_snapshot
    by blast
qed

theorem job_status_lifecycle_witness:
  "analyze_brand [] ''job-1'' ''2024-01-01T10:00:00'' ''acme.example'' ''auto'' ''user@x.com'' =
     Inr ([(''job-1'',
            new_job ''job-1'' ''2024-01-01T10:00:00'' ''acme.example'' ''auto'' ''user@x.com'')],
          [(''job_id'', VStr ''job-1''),
           (''status'', VStr ''pending''),
           (''message'', VStr
              ''Marketing Genome analysis started. Report will be emailed when complete.''),
           (''estimated_time'', VStr ''3-5 minutes'')]) \<and>
   (\<exists>j0. map_of [(''job-1'',
                   new_job ''job-1'' ''2024-01-01T10:00:00'' ''acme.example'' ''auto''
                     ''user@x.com'')] ''job-1'' = Some j0 \<and>
         dict_get j0 ''status'' = Some (VStatus PENDING) \<and>
         remdups_adj
           (status_trace (j0 # snapshots (run_job env_stage3_fails ''2024-01-01T10:05:00''
              ''job-1'' ''acme.example'' ''auto'' ''user@x.com'' j0)))
           \<in> {[Some (VStatus PENDING), Some (VStatus PROCESSING), Some (VStatus COMPLETED)],
               [Some (VStatus PENDING), Some (VStatus PROCESSING), Some (VStatus FAILED)]})"
proof -
  have a: "analyze_brand [] ''job-1'' ''2024-01-01T10:00:00'' ''acme.example'' ''auto''
      ''user@x.com'' =
     Inr ([(''job-1'',
            new_job ''job-1'' ''2024-01-01T10:00:00'' ''acme.example'' ''auto'' ''user@x.com'')],
          [(''job_id'', VStr ''job-1''),
           (''status'', VStr ''pending''),
           (''message'', VStr
              ''Marketing Genome analysis started. Report will be emailed when complete.''),
           (''estimated_time'', VStr ''3-5 minutes'')])"
    by (simp add: analyze_brand_def dict_set_def)
  from job_status_lifecycle
         [OF a, where env = env_stage3_fails and now = "''2024-01-01T10:05:00''"] a
  show ?thesis
    by blast
qed

subsection \<open>Claim C4: completion and the delivery flag\<close>

text \<open>
  C4. When the engine is constructed and the stages 1 to 6 all return, the run ends with
  status COMPLETED, the artifact location stored (\<^verbatim>\<open>pdf_path\<close> and \<^verbatim>\<open>pdf_url\<close>) and
  \<^verbatim>\<open>completed_at\<close> set. The delivery of stage 7 is attempted once, and its outcome is
  stored in the boolean \<^verbatim>\<open>email_sent\<close> only: the status is COMPLETED whether the
  delivery succeeded or not, and FAILED is never written during the run.
\<close>

theorem all_stages_succeed_completed:
  assumes "MarketGenomeEngine_init env = None"
    and "collect_brand_data env brand_input input_type = Inr brand_data"
    and "analyze_brand_dna env brand_data = Inr brand_dna"
    and "analyze_competitors env brand_data brand_dna = Inr competitor_intel"
    and "create_growth_roadmap env brand_dna competitor_intel = Inr growth_roadmap"
    and "create_content_strategy env brand_dna = Inr content_strategy"
    and "dict_get brand_data ''brand_name'' = Some brand_name"
    and "generate_genome_report env job_id brand_name brand_dna competitor_intel
           growth_roadmap content_strategy = Inr pdf_path"
  shows "(let s = run_job env now job_id brand_input input_type email j;
              delivered = (smtp_transaction env email [pdf_path] = None)
          in dict_get (job s) ''status'' = Some (VStatus COMPLETED) \<and>
             dict_get (job s) ''pdf_path'' = Some (VStr pdf_path) \<and>
             dict_get (job s) ''pdf_url'' = Some (VStr (''/api/download/report/'' @ job_id)) \<and>
             dict_get (job s) ''email_sent'' = Some (VBool delivered) \<and>
             dict_get (job s) ''completed_at'' = Some (VStr now) \<and>
             Some (VStatus FAILED) \<notin> set (status_trace (snapshots s)) \<and>
             steps s = map (\<lambda>c. (c, Returned)) pipeline @
                         [(Step7_email email brand_input pdf_path, Delivered delivered)])"
  using assms
  by (simp add: run_unfold dict_get_set status_trace_def pipeline_def
        send_genome_report_email_def send_email_def split: option.splits)

text \<open>The run of \<^verbatim>\<open>job-1\<close> with every stage returning and the SMTP server refusing.\<close>

theorem all_stages_succeed_completed_witness:
  "MarketGenomeEngine_init env_smtp_down = None \<and>
   collect_brand_data env_smtp_down ''acme.example'' ''auto'' = Inr brand_data_ex \<and>
   dict_get brand_data_ex ''brand_name'' = Some (VStr ''Acme'') \<and>
   smtp_transaction env_smtp_down ''user@x.com'' [''outputs/genome.pdf''] \<noteq> None \<and>
   (let s = run_job env_smtp_down ''2024-01-01T10:05:00'' ''job-1'' ''acme.example'' ''auto''
              ''user@x.com''
              (new_job ''job-1'' ''2024-01-01T10:00:00'' ''acme.example'' ''auto'' ''user@x.com'')
    in dict_get (job s) ''status'' = Some (VStatus COMPLETED) \<and>
       dict_get (job s) ''pdf_path'' = Some (VStr ''outputs/genome.pdf'') \<and>
       dict_get (job s) ''pdf_url'' = Some (VStr ''/api/download/report/job-1'') \<and>
       dict_get (job s) ''email_sent'' = Some (VBool False))"
proof -
  have h: "MarketGenomeEngine_init env_smtp_down = None"
    "collect_brand_data env_smtp_down ''acme.example'' ''auto'' = Inr brand_data_ex"
    "analyze_brand_dna env_smtp_down brand_data_ex = Inr brand_dna_ex"
    "analyze_competitors env_smtp_down brand_data_ex brand_dna_ex =
       Inr [(''names'', VStr ''Rival Inc'')]"
    "create_growth_roadmap env_smtp_down brand_dna_ex [(''names'', VStr ''Rival Inc'')] =
       Inr [(''quarter'', VStr ''Q1'')]"
    "create_content_strategy env_smtp_down brand_dna_ex = Inr [(''pillar'', VStr ''education'')]"
    "dict_get brand_data_ex ''brand_name'' = Some (VStr ''Acme'')"
    "generate_genome_report env_smtp_down ''job-1'' (VStr ''Acme'') brand_dna_ex
       [(''names'', VStr ''Rival Inc'')] [(''quarter'', VStr ''Q1'')]
       [(''pillar'', VStr ''education'')] = Inr ''outputs/genome.pdf''"
    by (simp_all add: env_smtp_down_def env_ok_def brand_data_ex_def dict_get_def)
  have d: "smtp_transaction env_smtp_down ''user@x.com'' [''outputs/genome.pdf''] \<noteq> None"
    by (simp add: env_smtp_down_def env_ok_def)
  from all_stages_succeed_completed [OF h, where now = "''2024-01-01T10:05:00''"
      and email = "''user@x.com''"
      and j = "new_job ''job-1'' ''2024-01-01T10:00:00'' ''acme.example'' ''auto'' ''user@x.com''"]
    h(1,2,7) d
  show ?thesis
    by (simp add: Let_def)
qed

subsection \<open>Claim C5: a raising stage\<close>



subsection \<open>Claim C2: what a failed run leaves in the record\<close>




section \<open>Properties of the brand assistant\<close>

subsection \<open>Claim C3: the intent classifier\<close>

lemma contains_iff_sublist: "contains p s \<longleftrightarrow> sublist p s"
  by (induction s) (auto simp: sublist_Cons_right)

lemma any_in_iff: "any_in phrases text \<longleftrightarrow> (\<exists>p \<in> set phrases. sublist p text)"
  by (simp add: any_in_def list_ex_iff contains_iff_sublist)

text \<open>
  C3. \<^const>\<open>detect_action_type\<close> is the ordered rule table read from first to last on
  the lowered text, so the first category with a matching phrase wins; two messages that
  differ only in the case of their letters are classified alike; and a message with an
  image phrase and a competitor phrase is classified \<^verbatim>\<open>generate_image\<close>.
\<close>

theorem intent_cascade_first_match:
  "detect_action_type m = first_match rule_table (lower m) \<and>
   (lower m = lower m' \<longrightarrow> detect_action_type m = detect_action_type m') \<and>
   ((\<exists>p \<in> set image_phrases. sublist p (lower m)) \<and>
    (\<exists>q \<in> set competitor_phrases. sublist q (lower m)) \<longrightarrow>
    detect_action_type m = ''generate_image'')"
proof -
  have table: "detect_action_type x = first_match rule_table (lower x)" for x
    by (simp add: detect_action_type_def rule_table_def Let_def)
  have image: "detect_action_type m = ''generate_image''"
    if "\<exists>p \<in> set image_phrases. sublist p (lower m)"
    using that by (simp add: detect_action_type_def Let_def any_in_iff)
  show ?thesis
    using table [of m] table [of m'] image by auto
qed

theorem intent_cascade_first_match_witness:
  "lower ''Generate IMAGE of our top Competitor'' = lower ''generate image of our top competitor'' \<and>
   (\<exists>p \<in> set image_phrases. sublist p (lower ''Generate IMAGE of our top Competitor'')) \<and>
   (\<exists>q \<in> set competitor_phrases. sublist q (lower ''Generate IMAGE of our top Competitor'')) \<and>
   detect_action_type ''Generate IMAGE of our top Competitor'' = ''generate_image'' \<and>
   detect_action_type ''generate image of our top competitor'' = ''generate_image''"
proof -
  have a: "lower ''Generate IMAGE of our top Competitor'' =
      lower ''generate image of our top competitor''"
    by (simp add: lower_def lower_char_def)
  have "contains ''image of'' (lower ''Generate IMAGE of our top Competitor'')"
    by (simp add: lower_def lower_char_def)
  then have b: "\<exists>p \<in> set image_phrases. sublist p (lower ''Generate IMAGE of our top Competitor'')"
    by (auto simp: contains_iff_sublist image_phrases_def)
  have "contains ''competitor'' (lower ''Generate IMAGE of our top Competitor'')"
    by (simp add: lower_def lower_char_def)
  then have c: "\<exists>q \<in> set competitor_phrases.
      sublist q (lower ''Generate IMAGE of our top Competitor'')"
    by (auto simp: contains_iff_sublist competitor_phrases_def)
  from intent_cascade_first_match
         [of "''Generate IMAGE of our top Competitor''" "''generate image of our top competitor''"]
       a b c
  show ?thesis
    by auto
qed

subsection \<open>How a call of \<^verbatim>\<open>chat\<close> ends\<close>

lemma detect_not_error: "detect_action_type m \<noteq> ''error''"
  by (simp add: detect_action_type_def Let_def)

lemma chat_context: "brand_context (fst (chat be now a m)) = brand_context a"
  by (simp add: chat_def Let_def split: option.splits sum.splits prod.splits)

lemma chat_handle: "brand_handle (fst (chat be now a m)) = brand_handle a"
  by (simp add: chat_def Let_def split: option.splits sum.splits prod.splits)

text \<open>The completion call raises: the error reply, and the user entry alone is appended.\<close>

lemma chat_completion_raises:
  assumes "\<not> image_generated be a m"
    and "build_system_prompt_error (brand_context a) = None"
    and "chat_completions_create be (brand_handle a) (brand_context a)
           (conversation_history a @ [user_entry now m]) = Inl e"
  shows "chat be now a m =
           (a\<lparr>conversation_history := conversation_history a @ [user_entry now m]\<rparr>,
            Inr [(''response'', VStr (error_response e (brand_handle a))),
                 (''action_type'', VStr ''error''),
                 (''needs_report'', VBool False),
                 (''timestamp'', VStr now)])"
  using assms
  by (auto simp add: chat_def Let_def image_generated_def generate_image_def error_response_def
        split: option.splits sum.splits prod.splits)

text \<open>A successful call appends the user entry and one assistant entry.\<close>

lemma chat_succeeded_history:
  assumes "chat_succeeded be now a m"
  shows "\<exists>entry. conversation_history (fst (chat be now a m)) =
                   conversation_history a @ [user_entry now m, entry] \<and>
                 dict_get entry ''role'' = Some (VStr ''assistant'')"
  using assms
  by (auto simp add: chat_succeeded_def chat_def Let_def dict_get_def
        split: option.splits sum.splits prod.splits if_splits)

lemma chat_all_history:
  assumes "all_succeeded be a calls"
  shows "\<exists>new. conversation_history (chat_all be a calls) = conversation_history a @ new \<and>
               length new = 2 * length calls \<and>
               roles new =
                 concat (replicate (length calls)
                   [Some (VStr ''user''), Some (VStr ''assistant'')]) \<and>
               user_contents new = map (\<lambda>(now, m). Some (VStr m)) calls"
  using assms
proof (induction calls arbitrary: a)
  case Nil
  then show ?case
    by (simp add: roles_def user_contents_def)
next
  case (Cons call calls)
  obtain now m where call: "call = (now, m)"
    by (cases call)
  let ?a' = "fst (chat be now a m)"
  from Cons.prems call have ok: "chat_succeeded be now a m" and rest: "all_succeeded be ?a' calls"
    by simp_all
  from chat_succeeded_history [OF ok] obtain entry where
    step: "conversation_history ?a' = conversation_history a @ [user_entry now m, entry]"
    and role: "dict_get entry ''role'' = Some (VStr ''assistant'')"
    by blast
  from Cons.IH [OF rest] obtain new where
    new: "conversation_history (chat_all be ?a' calls) = conversation_history ?a' @ new"
      "length new = 2 * length calls"
      "roles new = concat (replicate (length calls)
                   [Some (VStr ''user''), Some (VStr ''assistant'')])"
      "user_contents new = map (\<lambda>(now, m). Some (VStr m)) calls"
    by blast
  let ?new = "user_entry now m # entry # new"
  have "conversation_history (chat_all be a (call # calls)) = conversation_history a @ ?new"
    using new(1) step call by simp
  moreover have "length ?new = 2 * length (call # calls)"
    using new(2) by simp
  moreover have "roles ?new = concat (replicate (length (call # calls))
                   [Some (VStr ''user''), Some (VStr ''assistant'')])"
    using new(3) role by (simp add: roles_def user_entry_def dict_get_def)
  moreover have "user_contents ?new = map (\<lambda>(now, m). Some (VStr m)) (call # calls)"
    using new(4) role call by (simp add: user_contents_def user_entry_def dict_get_def)
  ultimately show ?case
    by blast
qed

subsection \<open>Claim C7: two entries per successful turn\<close>

text \<open>
  C7. On an assistant whose history is empty, as a new session's is, after \<open>n\<close> calls of
  \<^verbatim>\<open>chat\<close> that are all successful the history has exactly \<open>2n\<close> entries, their
  roles alternate user, assistant, and the user entries carry the messages in call order.
\<close>

theorem history_after_successful_calls:
  assumes "conversation_history a = []"
    and "all_succeeded be a calls"
  shows "length (conversation_history (chat_all be a calls)) = 2 * length calls \<and>
         roles (conversation_history (chat_all be a calls)) =
           concat (replicate (length calls) [Some (VStr ''user''), Some (VStr ''assistant'')]) \<and>
         user_contents (conversation_history (chat_all be a calls)) =
           map (\<lambda>(now, m). Some (VStr m)) calls"
  using chat_all_history [OF assms(2)] assms(1)
  by auto

theorem history_after_successful_calls_witness:
  "conversation_history fresh_assistant = [] \<and>
   all_succeeded backend_up fresh_assistant
     [(''2024-01-01T10:00:00'', ''How often should we post?''),
      (''2024-01-01T10:01:00'', ''Create an image of our new shoe'')] \<and>
   length (conversation_history (chat_all backend_up fresh_assistant
     [(''2024-01-01T10:00:00'', ''How often should we post?''),
      (''2024-01-01T10:01:00'', ''Create an image of our new shoe'')])) = 4 \<and>
   roles (conversation_history (chat_all backend_up fresh_assistant
     [(''2024-01-01T10:00:00'', ''How often should we post?''),
      (''2024-01-01T10:01:00'', ''Create an image of our new shoe'')])) =
     [Some (VStr ''user''), Some (VStr ''assistant''),
      Some (VStr ''user''), Some (VStr ''assistant'')]"
proof -
  have d1: "detect_action_type ''How often should we post?'' = ''general_chat''"
    by (simp add: detect_action_type_def Let_def any_in_def lower_def lower_char_def
          image_phrases_def report_phrases_def content_phrases_def competitor_phrases_def
          predictive_phrases_def audience_phrases_def campaign_phrases_def)
  have d2: "detect_action_type ''Create an image of our new shoe'' = ''generate_image''"
    by (simp add: detect_action_type_def Let_def any_in_def lower_def lower_char_def
          image_phrases_def)
  have a: "conversation_history fresh_assistant = []"
    by (simp add: fresh_assistant_def)
  have b: "all_succeeded backend_up fresh_assistant
     [(''2024-01-01T10:00:00'', ''How often should we post?''),
      (''2024-01-01T10:01:00'', ''Create an image of our new shoe'')]"
    by (simp add: chat_succeeded_def chat_def Let_def d1 d2 fresh_assistant_def backend_up_def
          generate_image_def build_system_prompt_error_def dict_get_def)
  from history_after_successful_calls [OF a b] a b
  show ?thesis
    by (simp add: numeral_2_eq_2)
qed

subsection \<open>Claim C10: the history after a failed turn\<close>

text \<open>
  C10, as stated, fails in its last part. On a new assistant with the completion endpoint
  down, two calls in a row both end in the error reply; each appends its user entry and
  nothing else, so after the second failed call the history has two entries: its length
  is even, not odd.
\<close>

theorem second_failed_turn_even_history:
  "chat_completions_create backend_down ''acme'' []
     [user_entry ''2024-01-01T10:00:00'' ''hello''] = Inl ''timeout'' \<and>
   chat_completions_create backend_down ''acme'' []
     [user_entry ''2024-01-01T10:00:00'' ''hello'',
      user_entry ''2024-01-01T10:01:00'' ''are you there''] = Inl ''timeout'' \<and>
   snd (chat backend_down ''2024-01-01T10:01:00''
          (fst (chat backend_down ''2024-01-01T10:00:00'' fresh_assistant ''hello''))
          ''are you there'') =
     Inr [(''response'', VStr (error_response ''timeout'' ''acme'')),
          (''action_type'', VStr ''error''),
          (''needs_report'', VBool False),
          (''timestamp'', VStr ''2024-01-01T10:01:00'')] \<and>
   conversation_history
     (fst (chat backend_down ''2024-01-01T10:01:00''
            (fst (chat backend_down ''2024-01-01T10:00:00'' fresh_assistant ''hello''))
            ''are you there'')) =
     [user_entry ''2024-01-01T10:00:00'' ''hello'',
      user_entry ''2024-01-01T10:01:00'' ''are you there''] \<and>
   \<not> odd (length (conversation_history
     (fst (chat backend_down ''2024-01-01T10:01:00''
            (fst (chat backend_down ''2024-01-01T10:00:00'' fresh_assistant ''hello''))
            ''are you there''))))"
proof -
  have d1: "detect_action_type ''hello'' = ''general_chat''"
    by (simp add: detect_action_type_def Let_def any_in_def lower_def lower_char_def
          image_phrases_def report_phrases_def content_phrases_def competitor_phrases_def
          predictive_phrases_def audience_phrases_def campaign_phrases_def)
  have d2: "detect_action_type ''are you there'' = ''general_chat''"
    by (simp add: detect_action_type_def Let_def any_in_def lower_def lower_char_def
          image_phrases_def report_phrases_def content_phrases_def competitor_phrases_def
          predictive_phrases_def audience_phrases_def campaign_phrases_def)
  show ?thesis
    by (simp add: chat_def Let_def d1 d2 fresh_assistant_def backend_down_def
          build_system_prompt_error_def error_response_def)
qed

text \<open>
  C10, amended. When the completion call of a turn raises, the user entry has been
  appended before and no assistant entry follows: the history grows by exactly that one
  entry and the error reply is returned. The new length is odd exactly when the old one
  was even.
\<close>

theorem failed_turn_appends_user_entry:
  assumes "\<not> image_generated be a m"
    and "build_system_prompt_error (brand_context a) = None"
    and "chat_completions_create be (brand_handle a) (brand_context a)
           (conversation_history a @ [user_entry now m]) = Inl e"
  shows "conversation_history (fst (chat be now a m)) =
           conversation_history a @ [user_entry now m] \<and>
         length (conversation_history (fst (chat be now a m))) =
           Suc (length (conversation_history a)) \<and>
         (odd (length (conversation_history (fst (chat be now a m)))) \<longleftrightarrow>
            even (length (conversation_history a))) \<and>
         snd (chat be now a m) =
           Inr [(''response'', VStr (error_response e (brand_handle a))),
                (''action_type'', VStr ''error''),
                (''needs_report'', VBool False),
                (''timestamp'', VStr now)]"
  using chat_completion_raises [OF assms]
  by simp

theorem failed_turn_appends_user_entry_witness:
  "\<not> image_generated backend_down fresh_assistant ''Create an image of our new shoe'' \<and>
   build_system_prompt_error (brand_context fresh_assistant) = None \<and>
   chat_completions_create backend_down (brand_handle fresh_assistant)
     (brand_context fresh_assistant)
     (conversation_history fresh_assistant @
        [user_entry ''2024-01-01T10:00:00'' ''Create an image of our new shoe'']) =
     Inl ''timeout'' \<and>
   conversation_history
     (fst (chat backend_down ''2024-01-01T10:00:00'' fresh_assistant
             ''Create an image of our new shoe'')) =
     [user_entry ''2024-01-01T10:00:00'' ''Create an image of our new shoe''] \<and>
   odd (length (conversation_history
     (fst (chat backend_down ''2024-01-01T10:00:00'' fresh_assistant
             ''Create an image of our new shoe''))))"
proof -
  have a: "\<not> image_generated backend_down fresh_assistant ''Create an image of our new shoe''"
    by (simp add: image_generated_def generate_image_def backend_down_def)
  have b: "build_system_prompt_error (brand_context fresh_assistant) = None"
    by (simp add: build_system_prompt_error_def fresh_assistant_def)
  have c: "chat_completions_create backend_down (brand_handle fresh_assistant)
     (brand_context fresh_assistant)
     (conversation_history fresh_assistant @
        [user_entry ''2024-01-01T10:00:00'' ''Create an image of our new shoe'']) =
     Inl ''timeout''"
    by (simp add: backend_down_def)
  have h: "conversation_history fresh_assistant = []"
    by (simp add: fresh_assistant_def)
  from failed_turn_appends_user_entry [OF a b c] a b c h
  show ?thesis
    by simp
qed

section \<open>Properties of the session manager\<close>

subsection \<open>The invariant of the registries\<close>

lemma list_all_dict_set: "list_all P d \<Longrightarrow> P (k, v) \<Longrightarrow> list_all P (dict_set d k v)"
  by (induction d) (auto simp: dict_set_def)

lemma list_all_delete: "list_all P d \<Longrightarrow> list_all P (AList.delete k d)"
  by (induction d) auto

lemma list_all_map_of: "list_all P d \<Longrightarrow> map_of d k = Some v \<Longrightarrow> P (k, v)"
  by (auto simp: list_all_iff dest: map_of_SomeD)

lemma job_ok_new_job: "job_ok (new_job job_id now brand_input input_type email)"
  by (simp add: job_ok_def new_job_def dict_get_def)

lemma job_ok_run_job:
  assumes "job_ok j"
  shows "job_ok (job (run_job env now job_id brand_input input_type email j))"
proof -
  have "dict_get (job (run_job env now job_id brand_input input_type email j)) k = dict_get j k"
    if "k \<in> {''brand_dna'', ''audience'', ''competitors'', ''brand_input''}" for k
    using that by (intro run_job_frame) auto
  then show ?thesis
    using assms by (simp add: job_ok_def)
qed

lemma load_brand_context_ok: "job_ok j \<Longrightarrow> load_brand_context j = empty_context"
  by (simp add: job_ok_def load_brand_context_def empty_context_def dict_get_default_def
        dict_get_def)

text \<open>
  On records with a string under \<^verbatim>\<open>brand_input\<close> the loop of \<^verbatim>\<open>initialize_chat\<close>
  does not raise and stops at the first record, in insertion order, that matches.
\<close>

lemma find_completed_job_first:
  assumes "list_all (\<lambda>(job_id, j). job_ok j) genome_jobs"
  shows "find_completed_job genome_jobs handle =
           Inr (List.find (brand_matches handle) (map snd genome_jobs))"
  using assms
proof (induction genome_jobs)
  case Nil
  then show ?case by simp
next
  case (Cons p rest)
  obtain job_id j where p: "p = (job_id, j)"
    by (cases p)
  from Cons.prems p have "job_ok j"
    by simp
  then obtain b where b: "dict_get j ''brand_input'' = Some (VStr b)"
    by (auto simp: job_ok_def split: option.splits pyval.splits)
  then have low: "py_lower (dict_get_default j ''brand_input'' (VStr [])) = Some (lower b)"
    by (simp add: dict_get_default_def dict_get_def)
  from Cons.IH Cons.prems have
    "find_completed_job rest handle = Inr (List.find (brand_matches handle) (map snd rest))"
    by simp
  moreover have "brand_matches handle j \<longleftrightarrow> lower b = lower handle \<and> is_completed j"
    using low by (simp add: brand_matches_def)
  ultimately show ?case
    using low by (simp add: p)
qed

lemma context_ok_prompt: "context_ok ctx \<Longrightarrow> build_system_prompt_error ctx = None"
  by (auto simp: context_ok_def build_system_prompt_error_def empty_context_def
        section_error_def dict_get_default_def)

lemma reachable_state_ok: "reachable st \<Longrightarrow> state_ok st"
proof (induction rule: reachable.induct)
  case start
  then show ?case
    by (simp add: state_ok_def)
next
  case (submitted jobs ss job_id now brand_input input_type email jobs' resp)
  from submitted.hyps(2) have "jobs' = dict_set jobs job_id
      (new_job job_id now brand_input input_type email)"
    by (simp add: analyze_brand_def split: if_splits)
  then show ?case
    using submitted.IH by (simp add: state_ok_def list_all_dict_set job_ok_new_job)
next
  case (ran jobs ss env now job_id brand_input input_type email jobs')
  from ran.hyps(2) obtain j where j: "map_of jobs job_id = Some j"
    and jobs': "jobs' = dict_set jobs job_id
       (job (run_job env now job_id brand_input input_type email j))"
    by (auto simp: analyze_brand_genome_def split: option.splits)
  from ran.IH j have "job_ok j"
    using list_all_map_of [of "\<lambda>(job_id, j). job_ok j" jobs job_id j]
    by (simp add: state_ok_def)
  then show ?case
    using ran.IH by (simp add: state_ok_def jobs' list_all_dict_set job_ok_run_job)
next
  case (chat_started jobs ss be sid now handle ss' resp)
  from chat_started.IH have jobs_ok: "list_all (\<lambda>(job_id, j). job_ok j) jobs"
    by (simp add: state_ok_def)
  let ?found = "List.find (brand_matches handle) (map snd jobs)"
  have found_ok: "job_ok j" if "?found = Some j" for j
  proof -
    from that have "j \<in> set (map snd jobs)"
      by (auto simp: find_Some_iff)
    then show ?thesis
      using jobs_ok by (auto simp: list_all_iff)
  qed
  have ctx: "context_ok (case map_option load_brand_context ?found of None \<Rightarrow> [] | Some d \<Rightarrow> d)"
    using found_ok by (cases ?found) (simp_all add: context_ok_def load_brand_context_ok)
  from chat_started.hyps(2) obtain session where
    "ss' = dict_set ss sid session"
    "brand_context (cs_assistant session) =
       (case map_option load_brand_context ?found of None \<Rightarrow> [] | Some d \<Rightarrow> d)"
    by (auto simp: initialize_chat_def find_completed_job_first [OF jobs_ok]
          PixaroBrandAssistant_init_def Let_def split: option.splits sum.splits)
  then show ?case
    using chat_started.IH ctx by (simp add: state_ok_def list_all_dict_set)
next
  case (chat_message jobs ss be now sid message ss' result)
  show ?case
  proof (cases "map_of ss sid")
    case None
    with chat_message.hyps(2) have "ss' = ss"
      by (simp add: send_chat_message_def)
    then show ?thesis
      using chat_message.IH by simp
  next
    case (Some session)
    with chat_message.hyps(2) have
      ss': "ss' = dict_set ss sid
         (session\<lparr>cs_last_activity := now,
                  cs_assistant := fst (chat be now (cs_assistant session) message)\<rparr>)"
      by (auto simp: send_chat_message_def split: prod.splits)
    from chat_message.IH Some have "context_ok (brand_context (cs_assistant session))"
      using list_all_map_of
        [of "\<lambda>(sid, s). context_ok (brand_context (cs_assistant s))" ss sid session]
      by (simp add: state_ok_def)
    then show ?thesis
      using chat_message.IH by (simp add: state_ok_def ss' list_all_dict_set chat_context)
  qed
next
  case (chat_report jobs ss job_id now sid email jobs' resp)
  from chat_report.hyps(2) obtain j where "jobs' = dict_set jobs job_id j" "job_ok j"
    by (auto simp: generate_chat_report_def job_ok_def dict_get_def split: option.splits)
  then show ?case
    using chat_report.IH by (simp add: state_ok_def list_all_dict_set)
next
  case (chat_ended jobs ss sid ss')
  from chat_ended.hyps(2) have "ss' = AList.delete sid ss"
    by (simp add: end_chat_session_def split: option.splits)
  then show ?case
    using chat_ended.IH by (simp add: state_ok_def list_all_delete)
qed

text \<open>The registry \<^const>\<open>two_jobs_ex\<close> and the session over it are reached by the program.\<close>

lemma reachable_two_jobs: "reachable (two_jobs_ex, [])"
proof -
  let ?j1 = "new_job ''job-1'' ''2024-01-01T10:00:00'' ''brandx'' ''auto'' ''user@x.com''"
  let ?j2 = "new_job ''job-2'' ''2024-01-02T09:00:00'' ''BrandX'' ''auto'' ''user@x.com''"
  have s1: "analyze_brand [] ''job-1'' ''2024-01-01T10:00:00'' ''brandx'' ''auto'' ''user@x.com'' =
      Inr ([(''job-1'', ?j1)],
           [(''job_id'', VStr ''job-1''),
            (''status'', VStr ''pending''),
            (''message'', VStr
               ''Marketing Genome analysis started. Report will be emailed when complete.''),
            (''estimated_time'', VStr ''3-5 minutes'')])"
    by (simp add: analyze_brand_def dict_set_def)
  have r1: "analyze_brand_genome env_ok ''2024-01-01T10:05:00'' [(''job-1'', ?j1)] ''job-1''
      ''brandx'' ''auto'' ''user@x.com'' = Inr [(''job-1'', job1_done_ex)]"
    by (simp add: analyze_brand_genome_def run_unfold env_ok_def new_job_def dict_set_def
          job1_done_ex_def brand_data_ex_def dict_get_def send_genome_report_email_def
          send_email_def)
  have s2: "analyze_brand [(''job-1'', job1_done_ex)] ''job-2'' ''2024-01-02T09:00:00''
      ''BrandX'' ''auto'' ''user@x.com'' =
      Inr ([(''job-1'', job1_done_ex), (''job-2'', ?j2)],
           [(''job_id'', VStr ''job-2''),
            (''status'', VStr ''pending''),
            (''message'', VStr
               ''Marketing Genome analysis started. Report will be emailed when complete.''),
            (''estimated_time'', VStr ''3-5 minutes'')])"
    by (simp add: analyze_brand_def dict_set_def)
  have r2: "analyze_brand_genome env_ok ''2024-01-02T09:05:00''
      [(''job-1'', job1_done_ex), (''job-2'', ?j2)] ''job-2''
      ''BrandX'' ''auto'' ''user@x.com'' = Inr two_jobs_ex"
    by (simp add: analyze_brand_genome_def run_unfold env_ok_def new_job_def dict_set_def
          job2_done_ex_def two_jobs_ex_def brand_data_ex_def dict_get_def
          send_genome_report_email_def send_email_def)
  from reachable.start s1 have "reachable ([(''job-1'', ?j1)], [])"
    by (rule reachable.submitted)
  from this r1 have "reachable ([(''job-1'', job1_done_ex)], [])"
    by (rule reachable.ran)
  from this s2 have "reachable ([(''job-1'', job1_done_ex), (''job-2'', ?j2)], [])"
    by (rule reachable.submitted)
  from this r2 show ?thesis
    by (rule reachable.ran)
qed

subsection \<open>Claim C9: the seeded context holds no data\<close>

text \<open>
  C9. In every state the program reaches, no job record carries one of the keys
  \<^verbatim>\<open>brand_dna\<close>, \<^verbatim>\<open>audience\<close>, \<^verbatim>\<open>competitors\<close>: the submissions do not set them and
  a run writes six other keys. So whenever \<^verbatim>\<open>initialize_chat\<close> answers with
  \<^verbatim>\<open>has_context\<close> true, the context of the stored session is the three empty mappings.
\<close>

theorem seeded_context_is_empty:
  assumes "reachable (genome_jobs, chat_sessions)"
    and "initialize_chat be genome_jobs chat_sessions sid now handle = Inr (ss', resp)"
    and "dict_get resp ''has_context'' = Some (VBool True)"
  shows "(\<exists>session. map_of ss' sid = Some session \<and>
            brand_context (cs_assistant session) = empty_context) \<and>
         list_all (\<lambda>(job_id, j). dict_get j ''brand_dna'' = None \<and>
                     dict_get j ''audience'' = None \<and>
                     dict_get j ''competitors'' = None) genome_jobs"
proof -
  from reachable_state_ok [OF assms(1)]
  have jobs_ok: "list_all (\<lambda>(job_id, j). job_ok j) genome_jobs"
    by (simp add: state_ok_def)
  let ?found = "List.find (brand_matches handle) (map snd genome_jobs)"
  from assms(2,3) obtain j session where found: "?found = Some j"
    and ss': "ss' = dict_set chat_sessions sid session"
    and ctx: "brand_context (cs_assistant session) = load_brand_context j"
    by (auto simp: initialize_chat_def find_completed_job_first [OF jobs_ok]
          PixaroBrandAssistant_init_def Let_def dict_get_def split: option.splits sum.splits)
  from found have "j \<in> set (map snd genome_jobs)"
    by (auto simp: find_Some_iff)
  then have "job_ok j"
    using jobs_ok by (auto simp: list_all_iff)
  then have "brand_context (cs_assistant session) = empty_context"
    by (simp add: ctx load_brand_context_ok)
  then have "\<exists>session. map_of ss' sid = Some session \<and>
            brand_context (cs_assistant session) = empty_context"
    by (auto simp: ss' map_of_dict_set)
  moreover have "list_all (\<lambda>(job_id, j). dict_get j ''brand_dna'' = None \<and>
                     dict_get j ''audience'' = None \<and>
                     dict_get j ''competitors'' = None) genome_jobs"
    using jobs_ok by (auto simp: list_all_iff job_ok_def)
  ultimately show ?thesis
    by blast
qed

lemma initialize_chat_ex:
  "initialize_chat backend_up two_jobs_ex [] ''s-1'' ''2024-01-03T08:00:00'' ''BrandX'' =
     Inr (sessions_ex,
          [(''session_id'', VStr ''s-1''),
           (''brand_handle'', VStr ''BrandX''),
           (''welcome_message'', VStr (welcome_message ''BrandX'')),
           (''has_context'', VBool True)])"
  by (simp add: initialize_chat_def two_jobs_ex_def job1_done_ex_def dict_get_default_def
        lower_def lower_char_def is_completed_def dict_get_def load_brand_context_def
        PixaroBrandAssistant_init_def backend_up_def dict_set_def sessions_ex_def session_ex_def
        empty_context_def)

theorem seeded_context_is_empty_witness:
  "reachable (two_jobs_ex, []) \<and>
   initialize_chat backend_up two_jobs_ex [] ''s-1'' ''2024-01-03T08:00:00'' ''BrandX'' =
     Inr (sessions_ex,
          [(''session_id'', VStr ''s-1''),
           (''brand_handle'', VStr ''BrandX''),
           (''welcome_message'', VStr (welcome_message ''BrandX'')),
           (''has_context'', VBool True)]) \<and>
   (\<exists>session. map_of sessions_ex ''s-1'' = Some session \<and>
      brand_context (cs_assistant session) = empty_context)"
proof -
  have c: "dict_get [(''session_id'', VStr ''s-1''),
           (''brand_handle'', VStr ''BrandX''),
           (''welcome_message'', VStr (welcome_message ''BrandX'')),
           (''has_context'', VBool True)] ''has_context'' = Some (VBool True)"
    by (simp add: dict_get_def)
  from seeded_context_is_empty [OF reachable_two_jobs initialize_chat_ex c]
    reachable_two_jobs initialize_chat_ex
  show ?thesis
    by blast
qed

subsection \<open>Claim C6: which record seeds the context\<close>

text \<open>The comparison of brands disregards case on the accented letters as well.\<close>

lemma lower_accented:
  "lower [CHR ''C'', CHR ''A'', CHR ''F'', CHR 0xC9] = [CHR ''c'', CHR ''a'', CHR ''f'', CHR 0xE9]"
  by (simp add: lower_def lower_char_def)

lemma latest_None_iff: "latest best js = None \<longleftrightarrow> best = None \<and> js = []"
  by (induction best js rule: latest.induct) auto

lemma latest_mem: "latest best js = Some j \<Longrightarrow> best = Some j \<or> j \<in> set js"
  by (induction best js rule: latest.induct) (auto split: if_splits)

text \<open>
  C6. In every reached state and with a client that can be constructed,
  \<^verbatim>\<open>initialize_chat\<close> stores a new session with an empty history whose context is the
  one built from the most recently completed record whose \<^verbatim>\<open>brand_input\<close> equals the
  handle without regard to case (the empty context when there is none), and answers with
  \<^verbatim>\<open>has_context\<close> true exactly when such a completed record exists. The loop itself
  stops at the first matching record in insertion order; every matching record of a
  reached registry gives the same context.
\<close>

theorem chat_context_from_latest_completed:
  assumes "reachable (genome_jobs, chat_sessions)"
    and "OpenAI_init be = None"
  shows "\<exists>session.
           initialize_chat be genome_jobs chat_sessions sid now handle =
             Inr (dict_set chat_sessions sid session,
                  [(''session_id'', VStr sid),
                   (''brand_handle'', VStr handle),
                   (''welcome_message'', VStr (welcome_message handle)),
                   (''has_context'',
                      VBool (most_recently_completed genome_jobs handle \<noteq> None))]) \<and>
           brand_context (cs_assistant session) =
             (case most_recently_completed genome_jobs handle of
                None \<Rightarrow> []
              | Some j \<Rightarrow> load_brand_context j) \<and>
           conversation_history (cs_assistant session) = [] \<and>
           (most_recently_completed genome_jobs handle \<noteq> None \<longleftrightarrow>
              (\<exists>j \<in> set (map snd genome_jobs). brand_matches handle j))"
proof -
  from reachable_state_ok [OF assms(1)]
  have jobs_ok: "list_all (\<lambda>(job_id, j). job_ok j) genome_jobs"
    by (simp add: state_ok_def)
  let ?matching = "filter (brand_matches handle) (map snd genome_jobs)"
  let ?first = "List.find (brand_matches handle) (map snd genome_jobs)"
  let ?latest = "most_recently_completed genome_jobs handle"
  have ok: "job_ok j" if "j \<in> set (map snd genome_jobs)" for j
    using that jobs_ok by (auto simp: list_all_iff)
  have ex: "(?latest \<noteq> None) = (\<exists>j \<in> set (map snd genome_jobs). brand_matches handle j)"
    by (auto simp: most_recently_completed_def latest_None_iff filter_empty_conv)
  have first_ex: "(?first \<noteq> None) = (\<exists>j \<in> set (map snd genome_jobs). brand_matches handle j)"
    by (auto simp: find_None_iff)
  have latest_ctx: "load_brand_context j = empty_context" if "?latest = Some j" for j
  proof -
    from that have "j \<in> set ?matching"
      using latest_mem [of None ?matching j] by (simp add: most_recently_completed_def)
    then show ?thesis
      using ok by (simp add: load_brand_context_ok)
  qed
  have first_ctx: "load_brand_context j = empty_context" if "?first = Some j" for j
  proof -
    from that have "j \<in> set (map snd genome_jobs)"
      by (auto simp: find_Some_iff)
    then show ?thesis
      using ok by (simp add: load_brand_context_ok)
  qed
  have same: "(case ?first of None \<Rightarrow> [] | Some j \<Rightarrow> load_brand_context j) =
      (case ?latest of None \<Rightarrow> [] | Some j \<Rightarrow> load_brand_context j)"
    using ex first_ex latest_ctx first_ctx
    by (cases ?first; cases ?latest) auto
  have flag: "(?first \<noteq> None) = (?latest \<noteq> None)"
    using ex first_ex by simp
  have "\<exists>session.
           initialize_chat be genome_jobs chat_sessions sid now handle =
             Inr (dict_set chat_sessions sid session,
                  [(''session_id'', VStr sid),
                   (''brand_handle'', VStr handle),
                   (''welcome_message'', VStr (welcome_message handle)),
                   (''has_context'', VBool (?first \<noteq> None))]) \<and>
           brand_context (cs_assistant session) =
             (case ?first of None \<Rightarrow> [] | Some j \<Rightarrow> load_brand_context j) \<and>
           conversation_history (cs_assistant session) = []"
    by (cases ?first)
       (auto simp: initialize_chat_def find_completed_job_first [OF jobs_ok]
          PixaroBrandAssistant_init_def assms(2) Let_def)
  then show ?thesis
    using same flag ex by auto
qed

text \<open>
  The handle \<^verbatim>\<open>BrandX\<close> over the two completed jobs for \<^verbatim>\<open>brandx\<close> and
  \<^verbatim>\<open>BrandX\<close>: the record completed most recently is \<^verbatim>\<open>job-2\<close>.
\<close>

theorem chat_context_from_latest_completed_witness:
  "reachable (two_jobs_ex, []) \<and>
   OpenAI_init backend_up = None \<and>
   most_recently_completed two_jobs_ex ''BrandX'' = Some job2_done_ex \<and>
   (\<exists>session.
      initialize_chat backend_up two_jobs_ex [] ''s-1'' ''2024-01-03T08:00:00'' ''BrandX'' =
        Inr (dict_set [] ''s-1'' session,
             [(''session_id'', VStr ''s-1''),
              (''brand_handle'', VStr ''BrandX''),
              (''welcome_message'', VStr (welcome_message ''BrandX'')),
              (''has_context'', VBool True)]) \<and>
      brand_context (cs_assistant session) = load_brand_context job2_done_ex)"
proof -
  have o: "OpenAI_init backend_up = None"
    by (simp add: backend_up_def)
  have m1: "brand_matches ''BrandX'' job1_done_ex"
    by (simp add: brand_matches_def job1_done_ex_def dict_get_default_def lower_def
          lower_char_def is_completed_def dict_get_def)
  have m2: "brand_matches ''BrandX'' job2_done_ex"
    by (simp add: brand_matches_def job2_done_ex_def dict_get_default_def lower_def
          lower_char_def is_completed_def dict_get_def)
  have t: "str_less (completed_at job1_done_ex) (completed_at job2_done_ex)"
    by (simp add: completed_at_def job1_done_ex_def job2_done_ex_def dict_get_def)
  have l: "most_recently_completed two_jobs_ex ''BrandX'' = Some job2_done_ex"
    using m1 m2 t by (simp add: most_recently_completed_def two_jobs_ex_def)
  from chat_context_from_latest_completed [OF reachable_two_jobs o, of "''s-1''"
      "''2024-01-03T08:00:00''" "''BrandX''"] reachable_two_jobs o l
  show ?thesis
    by auto
qed

subsection \<open>Claim C8: the reply of a turn\<close>

lemma chat_prefix:
  "prefix (conversation_history a) (conversation_history (fst (chat be now a m)))"
  by (auto simp add: chat_def Let_def split: option.splits sum.splits prod.splits)

lemma chat_image_generated:
  assumes "image_generated be a m"
  shows "\<exists>a' d. chat be now a m = (a', Inr d) \<and>
           dict_get d ''response'' = Some (VStr (image_response m))"
  using assms
  by (auto simp add: chat_def Let_def image_generated_def generate_image_def dict_get_def
        image_response_def split: option.splits sum.splits prod.splits)

lemma chat_completion_returns:
  assumes "\<not> image_generated be a m"
    and "build_system_prompt_error (brand_context a) = None"
    and "chat_completions_create be (brand_handle a) (brand_context a)
           (conversation_history a @ [user_entry now m]) = Inr (Some s)"
  shows "\<exists>a' d. chat be now a m = (a', Inr d) \<and> dict_get d ''response'' = Some (VStr s)"
  using assms
  by (auto simp add: chat_def Let_def image_generated_def generate_image_def dict_get_def
        split: option.splits sum.splits prod.splits)

lemma send_chat_message_reply:
  assumes "map_of chat_sessions sid = Some session"
    and "chat be now (cs_assistant session) m = (a', Inr d)"
    and "dict_get d ''response'' = Some (VStr s)"
  shows "\<exists>d'. snd (send_chat_message be chat_sessions now sid m) = Inr d' \<and>
           dict_get d' ''response'' = Some (VStr s) \<and>
           dict_get d' ''action_type'' =
             Some (dict_get_default d ''action_type'' (VStr ''general_chat''))"
  using assms by (simp add: send_chat_message_def dict_get_def)

text \<open>
  C8, as stated, fails in one part: the reply need not be non-empty. For the session
  \<^verbatim>\<open>s-1\<close> of a reached state and a completion call that returns the empty text, the
  operation returns the reply \<^verbatim>\<open>''\<close>: the text of the completion is forwarded as it is.
\<close>

theorem empty_completion_empty_reply:
  "reachable (two_jobs_ex, sessions_ex) \<and>
   map_of sessions_ex ''s-1'' = Some session_ex \<and>
   chat_completions_create backend_empty ''BrandX'' empty_context
     [user_entry ''2024-01-03T08:01:00'' ''hello''] = Inr (Some []) \<and>
   snd (send_chat_message backend_empty sessions_ex ''2024-01-03T08:01:00'' ''s-1'' ''hello'') =
     Inr [(''session_id'', VStr ''s-1''),
          (''response'', VStr []),
          (''action_type'', VStr ''general_chat''),
          (''needs_report'', VBool False),
          (''image_url'', VNone),
          (''timestamp'', VStr ''2024-01-03T08:01:00'')]"
proof -
  have r: "reachable (two_jobs_ex, sessions_ex)"
    using reachable_two_jobs initialize_chat_ex by (rule reachable.chat_started)
  have d: "detect_action_type ''hello'' = ''general_chat''"
    by (simp add: detect_action_type_def Let_def any_in_def lower_def lower_char_def
          image_phrases_def report_phrases_def content_phrases_def competitor_phrases_def
          predictive_phrases_def audience_phrases_def campaign_phrases_def)
  have n: "\<not> needs_report ''hello''"
    by (simp add: needs_report_def lower_def lower_char_def)
  have s: "snd (send_chat_message backend_empty sessions_ex ''2024-01-03T08:01:00'' ''s-1''
                 ''hello'') =
     Inr [(''session_id'', VStr ''s-1''),
          (''response'', VStr []),
          (''action_type'', VStr ''general_chat''),
          (''needs_report'', VBool False),
          (''image_url'', VNone),
          (''timestamp'', VStr ''2024-01-03T08:01:00'')]"
    by (simp add: send_chat_message_def sessions_ex_def session_ex_def chat_def Let_def d n
          backend_empty_def backend_up_def build_system_prompt_error_def empty_context_def
          section_error_def dict_get_default_def dict_get_def)
  show ?thesis
    using r s by (simp add: sessions_ex_def backend_empty_def backend_up_def)
qed

text \<open>
  C8, amended. For a session known in a reached state, whatever the backend does, the
  session stays in the registry with its handle and context and with its earlier history
  a prefix of the new one. When the completion call raises \<open>e\<close>, the error is caught
  inside \<^verbatim>\<open>chat\<close> and the operation returns the apology built from \<open>e\<close>, which is not
  empty, with \<^verbatim>\<open>action_type\<close> \<^verbatim>\<open>error\<close>. When an image is generated the operation
  returns the confirmation text, which is not empty. When the completion call returns a
  text, the operation returns that text as the reply, unchanged.
\<close>

theorem chat_message_reply:
  assumes "reachable (genome_jobs, chat_sessions)"
    and "map_of chat_sessions sid = Some session"
  shows "(\<exists>assistant.
            fst (send_chat_message be chat_sessions now sid m) =
              dict_set chat_sessions sid
                (session\<lparr>cs_last_activity := now, cs_assistant := assistant\<rparr>) \<and>
            brand_handle assistant = brand_handle (cs_assistant session) \<and>
            brand_context assistant = brand_context (cs_assistant session) \<and>
            prefix (conversation_history (cs_assistant session))
              (conversation_history assistant)) \<and>
         (\<forall>e. \<not> image_generated be (cs_assistant session) m \<and>
              chat_completions_create be (brand_handle (cs_assistant session))
                (brand_context (cs_assistant session))
                (conversation_history (cs_assistant session) @ [user_entry now m]) = Inl e \<longrightarrow>
              (\<exists>d. snd (send_chat_message be chat_sessions now sid m) = Inr d \<and>
                 dict_get d ''response'' =
                   Some (VStr (error_response e (brand_handle (cs_assistant session)))) \<and>
                 error_response e (brand_handle (cs_assistant session)) \<noteq> [] \<and>
                 dict_get d ''action_type'' = Some (VStr ''error''))) \<and>
         (image_generated be (cs_assistant session) m \<longrightarrow>
            (\<exists>d. snd (send_chat_message be chat_sessions now sid m) = Inr d \<and>
               dict_get d ''response'' = Some (VStr (image_response m)) \<and>
               image_response m \<noteq> [])) \<and>
         (\<forall>s. \<not> image_generated be (cs_assistant session) m \<and>
              chat_completions_create be (brand_handle (cs_assistant session))
                (brand_context (cs_assistant session))
                (conversation_history (cs_assistant session) @ [user_entry now m]) =
                Inr (Some s) \<longrightarrow>
              (\<exists>d. snd (send_chat_message be chat_sessions now sid m) = Inr d \<and>
                 dict_get d ''response'' = Some (VStr s)))"
proof -
  let ?a = "cs_assistant session"
  from reachable_state_ok [OF assms(1)] assms(2) have "context_ok (brand_context ?a)"
    using list_all_map_of
      [of "\<lambda>(sid, s). context_ok (brand_context (cs_assistant s))" chat_sessions sid session]
    by (simp add: state_ok_def)
  then have prompt: "build_system_prompt_error (brand_context ?a) = None"
    by (rule context_ok_prompt)
  have kept: "\<exists>assistant.
            fst (send_chat_message be chat_sessions now sid m) =
              dict_set chat_sessions sid
                (session\<lparr>cs_last_activity := now, cs_assistant := assistant\<rparr>) \<and>
            brand_handle assistant = brand_handle ?a \<and>
            brand_context assistant = brand_context ?a \<and>
            prefix (conversation_history ?a) (conversation_history assistant)"
  proof -
    have "fst (send_chat_message be chat_sessions now sid m) =
              dict_set chat_sessions sid
                (session\<lparr>cs_last_activity := now, cs_assistant := fst (chat be now ?a m)\<rparr>)"
      by (simp add: send_chat_message_def assms(2) split: prod.splits)
    then show ?thesis
      using chat_handle [of be now ?a m] chat_context [of be now ?a m]
        chat_prefix [of ?a be now m]
      by blast
  qed
  have raised: "\<exists>d. snd (send_chat_message be chat_sessions now sid m) = Inr d \<and>
                 dict_get d ''response'' = Some (VStr (error_response e (brand_handle ?a))) \<and>
                 error_response e (brand_handle ?a) \<noteq> [] \<and>
                 dict_get d ''action_type'' = Some (VStr ''error'')"
    if "\<not> image_generated be ?a m"
      "chat_completions_create be (brand_handle ?a) (brand_context ?a)
         (conversation_history ?a @ [user_entry now m]) = Inl e" for e
  proof -
    note c = chat_completion_raises [OF that(1) prompt that(2)]
    have "dict_get [(''response'', VStr (error_response e (brand_handle ?a))),
                 (''action_type'', VStr ''error''),
                 (''needs_report'', VBool False),
                 (''timestamp'', VStr now)] ''response'' =
            Some (VStr (error_response e (brand_handle ?a)))"
      by (simp add: dict_get_def)
    from send_chat_message_reply [OF assms(2) c this]
    show ?thesis
      by (auto simp: dict_get_default_def error_response_def)
  qed
  have image: "\<exists>d. snd (send_chat_message be chat_sessions now sid m) = Inr d \<and>
               dict_get d ''response'' = Some (VStr (image_response m)) \<and>
               image_response m \<noteq> []"
    if "image_generated be ?a m"
  proof -
    from chat_image_generated [OF that] obtain a' d where
      "chat be now ?a m = (a', Inr d)" "dict_get d ''response'' = Some (VStr (image_response m))"
      by blast
    from send_chat_message_reply [OF assms(2) this]
    show ?thesis
      by (auto simp: image_response_def)
  qed
  have returned: "\<exists>d. snd (send_chat_message be chat_sessions now sid m) = Inr d \<and>
                 dict_get d ''response'' = Some (VStr s)"
    if "\<not> image_generated be ?a m"
      "chat_completions_create be (brand_handle ?a) (brand_context ?a)
         (conversation_history ?a @ [user_entry now m]) = Inr (Some s)" for s
  proof -
    from chat_completion_returns [OF that(1) prompt that(2)] obtain a' d where
      "chat be now ?a m = (a', Inr d)" "dict_get d ''response'' = Some (VStr s)"
      by blast
    from send_chat_message_reply [OF assms(2) this]
    show ?thesis
      by blast
  qed
  show ?thesis
    using kept raised image returned by blast
qed

text \<open>The session \<^verbatim>\<open>s-1\<close> with the completion endpoint down.\<close>

theorem chat_message_reply_witness:
  "reachable (two_jobs_ex, sessions_ex) \<and>
   map_of sessions_ex ''s-1'' = Some session_ex \<and>
   \<not> image_generated backend_down (cs_assistant session_ex) ''hello'' \<and>
   chat_completions_create backend_down (brand_handle (cs_assistant session_ex))
      (brand_context (cs_assistant session_ex))
      (conversation_history (cs_assistant session_ex) @
         [user_entry ''2024-01-03T08:01:00'' ''hello'']) = Inl ''timeout'' \<and>
   (\<exists>d. snd (send_chat_message backend_down sessions_ex ''2024-01-03T08:01:00'' ''s-1''
               ''hello'') = Inr d \<and>
      dict_get d ''response'' = Some (VStr (error_response ''timeout'' ''BrandX'')) \<and>
      error_response ''timeout'' ''BrandX'' \<noteq> [] \<and>
      dict_get d ''action_type'' = Some (VStr ''error''))"
proof -
  have r: "reachable (two_jobs_ex, sessions_ex)"
    using reachable_two_jobs initialize_chat_ex by (rule reachable.chat_started)
  have a: "map_of sessions_ex ''s-1'' = Some session_ex"
    by (simp add: sessions_ex_def)
  have d: "detect_action_type ''hello'' = ''general_chat''"
    by (simp add: detect_action_type_def Let_def any_in_def lower_def lower_char_def
          image_phrases_def report_phrases_def content_phrases_def competitor_phrases_def
          predictive_phrases_def audience_phrases_def campaign_phrases_def)
  then have i: "\<not> image_generated backend_down (cs_assistant session_ex) ''hello''"
    by (simp add: image_generated_def)
  have f: "chat_completions_create backend_down (brand_handle (cs_assistant session_ex))
      (brand_context (cs_assistant session_ex))
      (conversation_history (cs_assistant session_ex) @
         [user_entry ''2024-01-03T08:01:00'' ''hello'']) = Inl ''timeout''"
    by (simp add: backend_down_def)
  have b: "brand_handle (cs_assistant session_ex) = ''BrandX''"
    by (simp add: session_ex_def)
  from chat_message_reply [OF r a, of backend_down "''2024-01-03T08:01:00''" "''hello''"]
    i f b r a
  show ?thesis
    by auto
qed

end
